theory Spec2Isabelle
  imports Complex_Main "HOL-Library.Sublist"
begin

section \<open>Values of the host language\<close>

text \<open>
  A thrown value is either an \<open>Error\<close> object, of which the code only ever reads the
  \<open>message\<close>, or some other value (\<open>error instanceof Error\<close> is false).
\<close>

datatype js_error = Error string | NonError

text \<open>
  A finite number of the source is modelled by the real that has the decimal notation
  under which the language prints the number, so that the literal \<open>0.85\<close> is the real
  \<open>0.85\<close>; equality and order of numbers are those of these reals. \<open>NaN\<close> and the
  infinities are not modelled.

  Structured data (\<open>any\<close> in the source: tool arguments and the payload of a server
  result):
\<close>

datatype json =
    JNull
  | JBool bool
  | JNum real
  | JStr string
  | JArr "json list"
  | JObj "(string \<times> json) list"

text \<open>The truthiness test of \<open>if (v)\<close> and \<open>v || d\<close>.\<close>

fun truthy :: "json \<Rightarrow> bool" where
  "truthy JNull = False"
| "truthy (JBool b) = b"
| "truthy (JNum x) = (x \<noteq> 0)"
| "truthy (JStr s) = (s \<noteq> [])"
| "truthy (JArr _) = True"
| "truthy (JObj _) = True"

definition nl :: string where
  "nl = [CHR 0x0A]"

text \<open>\<open>xs.slice(-n)\<close>: the last \<open>n\<close> elements, all of them when there are fewer.\<close>

definition slice_last :: "nat \<Rightarrow> 'a list \<Rightarrow> 'a list" where
  "slice_last n xs = drop (length xs - n) xs"

text \<open>\<open>parts.join(sep)\<close>\<close>

fun join :: "string \<Rightarrow> string list \<Rightarrow> string" where
  "join sep [] = []"
| "join sep [x] = x"
| "join sep (x # y # ys) = x @ sep @ join sep (y # ys)"

section \<open>Data model (types.ts)\<close>

datatype role = System | User | Assistant

record ChatMessage =
  role :: role
  content :: string
  timestamp :: nat

record mcpConnections =
  c_observability :: bool
  c_documentation :: bool
  c_bindings :: bool

text \<open>
  The counters hold natural numbers, on which \<open>++\<close> is exact (below \<open>2 ^ 53\<close>).
  \<open>mcpCalls[source]++\<close> on a key that is none of the three counters creates a property
  holding \<open>NaN\<close>; \<open>stray\<close> lists such keys.
\<close>

record mcpCalls =
  n_observability :: nat
  n_documentation :: nat
  n_bindings :: nat
  stray :: "string list"

record metadata =
  totalQueries :: nat
  cacheHits :: nat
  mcpCalls :: mcpCalls

record AgentState =
  sessionId :: string
  conversationHistory :: "ChatMessage list"
  mcpConnections :: mcpConnections
  lastActivity :: nat
  metadata :: metadata

section \<open>Conversation history (ObservabilityAgent)\<close>

text \<open>
  \<open>addToHistory(role, content)\<close>; the first argument is the value \<open>Date.now()\<close> returns
  at the call.
\<close>

definition addToHistory :: "nat \<Rightarrow> role \<Rightarrow> string \<Rightarrow> AgentState \<Rightarrow> AgentState" where
  "addToHistory now r c st =
     (let pushed = conversationHistory st @ [\<lparr>role = r, content = c, timestamp = now\<rparr>]
      in if length pushed > 20
         then st\<lparr>conversationHistory := slice_last 20 pushed\<rparr>
         else st\<lparr>conversationHistory := pushed\<rparr>)"

text \<open>Appending a sequence of messages, one \<open>addToHistory\<close> call each, in order.\<close>

fun appendAll :: "(nat \<times> role \<times> string) list \<Rightarrow> AgentState \<Rightarrow> AgentState" where
  "appendAll [] st = st"
| "appendAll ((t, r, c) # ms) st = appendAll ms (addToHistory t r c st)"

definition toMessage :: "nat \<times> role \<times> string \<Rightarrow> ChatMessage" where
  "toMessage m = (case m of (t, r, c) \<Rightarrow> \<lparr>role = r, content = c, timestamp = t\<rparr>)"

section \<open>The world outside the repository\<close>

text \<open>
  Everything an operation observes that is not code of this repository: the Workers AI
  models, the Vectorize index, the durable storage, the clock, and the few built-ins of
  the language whose result depends on floating-point rounding or on the engine. An
  operation is a function of one such environment; no assumption is made on it.

  \<^item> \<open>ai_embedding text\<close>: \<open>ai.run(EMBEDDING_MODEL, {text})\<close>; \<open>None\<close> is a response that
    is missing or whose \<open>data\<close> is not an array, \<open>Some vs\<close> the array \<open>data\<close>.
  \<^item> \<open>vectorize_query v k\<close>: \<open>vectorize.query(v, {topK: k, returnMetadata: true})\<close>, the
    list \<open>matches\<close>.
  \<^item> \<open>vectorize_insert\<close>: \<open>vectorize.insert\<close>; the identifier of the inserted vector is
    left out, the outcome being arbitrary anyway.
  \<^item> \<open>ai_hermes query\<close>: the tool-calling model on the fixed system message, the query
    and the constant \<open>TOOLS\<close>; \<open>None\<close> is a response that is missing or has no
    \<open>tool_calls\<close>.
  \<^item> \<open>ai_llama messages max_tokens temperature\<close>: the chat model; \<open>None\<close> is a response
    that is missing or has no \<open>response\<close>.
  \<^item> \<open>storage_put_fails\<close>, \<open>storage_get_fails\<close>: whether \<open>ctx.storage.put\<close> and
    \<open>ctx.storage.get\<close> throw.
  \<^item> \<open>date_now i\<close>: what \<open>Date.now()\<close> returns at the place \<open>i\<close> of the code: 0 is the
    entry of \<open>query\<close>, 1 and 2 its two calls of \<open>addToHistory\<close>, 3 the router, 4 \<open>store\<close>,
    5 the constructor; \<open>date_iso\<close>: \<open>new Date().toISOString()\<close>.
  \<^item> \<open>number_times x y\<close>: the exact value of the product \<open>x * y\<close> as the language computes
    it, rounded to a floating-point number;
    \<open>number_toString\<close>: the conversion to a string of a number given by its exact value;
    \<open>json_stringify\<close>: \<open>JSON.stringify(v, null, 2)\<close>.
  \<^item> \<open>inherited_text k\<close>: the text that the value of the property \<open>k\<close> of
    \<open>Object.prototype\<close> converts to.
\<close>

record VectorMetadata =
  md_question :: "string option"
  md_answer :: "string option"
  md_mcpSource :: "string option"
  md_timestamp :: "nat option"

record VectorizeMatch =
  match_score :: real
  match_metadata :: "VectorMetadata option"

record ToolCall =
  name :: string
  arguments :: "(string \<times> json) list option"

record env =
  ai_embedding :: "string \<Rightarrow> js_error + real list list option"
  vectorize_query :: "real list \<Rightarrow> nat \<Rightarrow> js_error + VectorizeMatch list"
  vectorize_insert :: "real list \<Rightarrow> VectorMetadata \<Rightarrow> js_error + unit"
  ai_hermes :: "string \<Rightarrow> js_error + ToolCall list option"
  ai_llama :: "(role \<times> string) list \<Rightarrow> nat \<Rightarrow> real \<Rightarrow> js_error + string option"
  storage_put_fails :: bool
  storage_get_fails :: bool
  date_now :: "nat \<Rightarrow> nat"
  date_iso :: string
  number_times :: "real \<Rightarrow> real \<Rightarrow> real"
  number_toString :: "real \<Rightarrow> string"
  json_stringify :: "json \<Rightarrow> string"
  inherited_text :: "string \<Rightarrow> string"

text \<open>\<open>error instanceof Error ? error.message : 'Unknown error'\<close>\<close>

definition error_message :: "js_error \<Rightarrow> string" where
  "error_message err = (case err of Error m \<Rightarrow> m | NonError \<Rightarrow> ''Unknown error'')"

text \<open>A value that may be \<open>undefined\<close>, inside a template literal.\<close>

definition interpolate :: "string option \<Rightarrow> string" where
  "interpolate v = (case v of None \<Rightarrow> ''undefined'' | Some s \<Rightarrow> s)"

subsection \<open>Number.prototype.toFixed\<close>

definition digit :: "nat \<Rightarrow> char" where
  "digit d = ''0123456789'' ! (d mod 10)"

fun decimal :: "nat \<Rightarrow> string" where
  "decimal n =
     (if n < 10 then [digit n]
      else decimal (n div 10) @ [digit (n mod 10)])"

declare decimal.simps [simp del]

text \<open>
  \<open>x.toFixed(f)\<close> for a finite \<open>x\<close> given by its exact value, as the language standard
  defines it: the integer \<open>n\<close> with \<open>n / 10 ^ f\<close> nearest to \<open>x\<close>, the larger one of two,
  written with at least one digit before the point; from \<open>10 ^ 21\<close> on, the general
  conversion to a string.
\<close>

definition toFixed :: "env \<Rightarrow> nat \<Rightarrow> real \<Rightarrow> string" where
  "toFixed e f x0 =
     (let s = (if x0 < 0 then ''-'' else []);
          x = \<bar>x0\<bar>
      in if x \<ge> 10 ^ 21 then s @ number_toString e x
         else
           (let n = nat \<lfloor>x * 10 ^ f + 1 / 2\<rfloor>;
                m0 = decimal n;
                m = replicate (f + 1 - length m0) (CHR ''0'') @ m0;
                k = length m
            in s @ (if f \<noteq> 0 then take (k - f) m @ ''.'' @ drop (k - f) m else m)))"

section \<open>Semantic memory (semantic-memory.ts)\<close>

definition SIMILARITY_THRESHOLD :: real where
  "SIMILARITY_THRESHOLD = 0.85"

record MemorySearchResult =
  score :: real
  question :: "string option"
  answer :: "string option"
  mcpSource :: "string option"
  found_timestamp :: "nat option"

text \<open>\<open>generateEmbedding\<close>: the body of its \<open>try\<close>, then the function with its \<open>catch\<close>.\<close>

definition generateEmbedding_try :: "env \<Rightarrow> string \<Rightarrow> js_error + real list option" where
  "generateEmbedding_try e text =
     (let truncatedText = take 1000 text
      in case ai_embedding e truncatedText of
           Inl err \<Rightarrow> Inl err
         | Inr response \<Rightarrow>
             (case response of
                Some (v # _) \<Rightarrow> Inr (Some v)
              | _ \<Rightarrow> Inr None))"

definition generateEmbedding :: "env \<Rightarrow> string \<Rightarrow> real list option" where
  "generateEmbedding e text =
     (case generateEmbedding_try e text of Inl err \<Rightarrow> None | Inr r \<Rightarrow> r)"

text \<open>The object \<open>search\<close> builds from the top match; \<open>metadata?.x\<close> is \<open>undefined\<close> without metadata.\<close>

definition toResult :: "VectorizeMatch \<Rightarrow> MemorySearchResult" where
  "toResult match =
     \<lparr>score = match_score match,
      question = Option.bind (match_metadata match) md_question,
      answer = Option.bind (match_metadata match) md_answer,
      mcpSource = Option.bind (match_metadata match) md_mcpSource,
      found_timestamp = Option.bind (match_metadata match) md_timestamp\<rparr>"

definition search_try :: "env \<Rightarrow> string \<Rightarrow> real \<Rightarrow> js_error + MemorySearchResult option" where
  "search_try e query threshold =
     (case generateEmbedding e query of
        None \<Rightarrow> Inr None
      | Some embedding \<Rightarrow>
          (case vectorize_query e embedding 3 of
             Inl err \<Rightarrow> Inl err
           | Inr matches \<Rightarrow>
               (case matches of
                  [] \<Rightarrow> Inr None
                | match # _ \<Rightarrow>
                    (if match_score match \<ge> threshold
                     then Inr (Some (toResult match))
                     else Inr None))))"

text \<open>\<open>search(query, threshold = SIMILARITY_THRESHOLD)\<close>; \<open>None\<close> is the omitted argument.\<close>

definition search :: "env \<Rightarrow> string \<Rightarrow> real option \<Rightarrow> MemorySearchResult option" where
  "search e query thr =
     (let threshold = (case thr of None \<Rightarrow> SIMILARITY_THRESHOLD | Some t \<Rightarrow> t)
      in case search_try e query threshold of Inl err \<Rightarrow> None | Inr r \<Rightarrow> r)"

definition store_try :: "env \<Rightarrow> string \<Rightarrow> string \<Rightarrow> string \<Rightarrow> js_error + unit" where
  "store_try e q a src =
     (case generateEmbedding e q of
        None \<Rightarrow> Inr ()
      | Some embedding \<Rightarrow>
          vectorize_insert e embedding
            \<lparr>md_question = Some q, md_answer = Some a, md_mcpSource = Some src,
             md_timestamp = Some (date_now e 4)\<rparr>)"

definition store :: "env \<Rightarrow> string \<Rightarrow> string \<Rightarrow> string \<Rightarrow> unit" where
  "store e q a src = (case store_try e q a src of Inl err \<Rightarrow> () | Inr u \<Rightarrow> u)"


section \<open>Intent classification and synthesis (llm-orchestrator.ts, tool-definitions.ts)\<close>

text \<open>
  \<open>Intent['type']\<close> and \<open>Intent['targetMCP']\<close>. The declared unions are the first
  constructors; the last one of each stands for any other truthy value that reaches the
  field at run time, given by the text it converts to (as a template literal and a
  property key convert it). A falsy \<open>targetMCP\<close> (\<open>null\<close>) is \<open>None\<close>.
\<close>

datatype intent_type =
    error_logs | performance | how_to | api_reference | list_resources | inspect_config
  | general
  | OtherType string

datatype mcp_target = Observability | Documentation | Bindings | OtherTarget string

record Intent =
  type :: intent_type
  confidence :: real
  targetMCP :: "mcp_target option"
  parameters :: "(string \<times> json) list option"

definition SYSTEM_PROMPT :: string where
  "SYSTEM_PROMPT =
     ''You are an expert Cloudflare Workers observability and troubleshooting assistant.'' @ nl @
     nl @
     ''Your role is to help developers debug distributed applications by:'' @ nl @
     ''1. Querying logs, traces, and metrics from Workers Observability'' @ nl @
     ''2. Searching Cloudflare documentation for how-to guides and API references'' @ nl @
     ''3. Inspecting Workers resources like KV, R2, D1, and Durable Objects'' @ nl @
     nl @
     ''When responding:'' @ nl @
     ''- Be concise and actionable'' @ nl @
     ''- Cite specific data from MCP queries'' @ nl @
     ''- Suggest next steps for debugging'' @ nl @
     ''- Link to relevant documentation when helpful'' @ nl @
     nl @
     ''You have access to three MCP servers:'' @ nl @
     ''- Observability: Real-time logs, traces, and analytics'' @ nl @
     ''- Documentation: Cloudflare API and platform documentation'' @ nl @
     ''- Bindings: Workers resource inspection and management''"

text \<open>
  \<open>map[key]\<close> on an object literal: the table's own entry, else a property the object
  inherits from \<open>Object.prototype\<close>, else \<open>undefined\<close>. The inherited values are functions
  and one object, all truthy; \<open>Inherited\<close> carries the text such a value converts to.
\<close>

definition objectPrototypeKeys :: "string list" where
  "objectPrototypeKeys =
     [''constructor'', ''__defineGetter__'', ''__defineSetter__'', ''hasOwnProperty'',
      ''__lookupGetter__'', ''__lookupSetter__'', ''isPrototypeOf'', ''propertyIsEnumerable'',
      ''toString'', ''valueOf'', ''__proto__'', ''toLocaleString'']"

datatype 'a property = Own 'a | Inherited string | Undefined

definition get_property :: "env \<Rightarrow> (string \<times> 'a) list \<Rightarrow> string \<Rightarrow> 'a property" where
  "get_property e table key =
     (case map_of table key of
        Some v \<Rightarrow> Own v
      | None \<Rightarrow>
          (if key \<in> set objectPrototypeKeys then Inherited (inherited_text e key)
           else Undefined))"

definition toolToIntentType :: "(string \<times> intent_type) list" where
  "toolToIntentType =
     [(''query_observability'', error_logs),
      (''search_docs'', how_to),
      (''query_bindings'', list_resources)]"

definition toolToMCP :: "(string \<times> mcp_target) list" where
  "toolToMCP =
     [(''query_observability'', Observability),
      (''search_docs'', Documentation),
      (''query_bindings'', Bindings)]"

text \<open>\<open>map[toolName] || 'general'\<close>\<close>

definition mapToolToIntentType :: "env \<Rightarrow> string \<Rightarrow> intent_type" where
  "mapToolToIntentType e toolName =
     (case get_property e toolToIntentType toolName of
        Own t \<Rightarrow> t
      | Inherited text \<Rightarrow> OtherType text
      | Undefined \<Rightarrow> general)"

text \<open>\<open>map[toolName] || null\<close>\<close>

definition mapToolToMCP :: "env \<Rightarrow> string \<Rightarrow> mcp_target option" where
  "mapToolToMCP e toolName =
     (case get_property e toolToMCP toolName of
        Own t \<Rightarrow> Some t
      | Inherited text \<Rightarrow> Some (OtherTarget text)
      | Undefined \<Rightarrow> None)"

definition classifyIntent_try :: "env \<Rightarrow> string \<Rightarrow> js_error + Intent" where
  "classifyIntent_try e query =
     (case ai_hermes e query of
        Inl err \<Rightarrow> Inl err
      | Inr response \<Rightarrow>
          (case response of
             Some (toolCall # _) \<Rightarrow>
               (let toolName = name toolCall
                in Inr \<lparr>type = mapToolToIntentType e toolName,
                        confidence = 0.9,
                        targetMCP = mapToolToMCP e toolName,
                        parameters =
                          Some (case arguments toolCall of Some a \<Rightarrow> a | None \<Rightarrow> [])\<rparr>)
           | _ \<Rightarrow>
               Inr \<lparr>type = general, confidence = 0.5, targetMCP = None, parameters = Some []\<rparr>))"

definition classifyIntent :: "env \<Rightarrow> string \<Rightarrow> Intent" where
  "classifyIntent e query =
     (case classifyIntent_try e query of
        Inr intent \<Rightarrow> intent
      | Inl err \<Rightarrow>
          \<lparr>type = general, confidence = 0.3, targetMCP = None, parameters = Some []\<rparr>)"

definition createFallbackResponse :: "env \<Rightarrow> string \<Rightarrow> json \<Rightarrow> string" where
  "createFallbackResponse e query mcpData =
     (if truthy mcpData
      then ''I found some information related to your query, but I'' @ [CHR 0x27] @
           ''m having trouble formatting it. Here'' @ [CHR 0x27] @ ''s the raw data:'' @
           nl @ nl @ json_stringify e mcpData
      else ''I apologize, but I encountered an error processing your request. Please try again or rephrase your question.'')"

definition synthesize_try :: "env \<Rightarrow> string \<Rightarrow> json \<Rightarrow> string \<Rightarrow> js_error + string" where
  "synthesize_try e query mcpData context =
     (let messages =
            [(System, SYSTEM_PROMPT)] @
            (if context \<noteq> [] then [(System, ''Previous context: '' @ context)] else []) @
            (if truthy mcpData
             then [(System, ''MCP Server Response:'' @ nl @ json_stringify e mcpData)]
             else []) @
            [(User, query)]
      in case ai_llama e messages 1024 0.7 of
           Inl err \<Rightarrow> Inl err
         | Inr response \<Rightarrow>
             (case response of
                Some r \<Rightarrow> if r \<noteq> [] then Inr r else Inr (createFallbackResponse e query mcpData)
              | None \<Rightarrow> Inr (createFallbackResponse e query mcpData)))"

definition synthesize :: "env \<Rightarrow> string \<Rightarrow> json \<Rightarrow> string \<Rightarrow> string" where
  "synthesize e query mcpData context =
     (case synthesize_try e query mcpData context of
        Inr r \<Rightarrow> r
      | Inl err \<Rightarrow> createFallbackResponse e query mcpData)"

definition generateResponse_try :: "env \<Rightarrow> string \<Rightarrow> js_error + string" where
  "generateResponse_try e query =
     (case ai_llama e [(System, SYSTEM_PROMPT), (User, query)] 512 0.8 of
        Inl err \<Rightarrow> Inl err
      | Inr response \<Rightarrow>
          (case response of
             Some r \<Rightarrow>
               if r \<noteq> [] then Inr r
               else Inr ''I understand your question, but I need more specific information to help. Could you provide more details?''
           | None \<Rightarrow>
               Inr ''I understand your question, but I need more specific information to help. Could you provide more details?''))"

definition generateResponse :: "env \<Rightarrow> string \<Rightarrow> string" where
  "generateResponse e query =
     (case generateResponse_try e query of
        Inr r \<Rightarrow> r
      | Inl err \<Rightarrow>
          ''I apologize, but I encountered an error processing your request. Please try rephrasing your question.'')"

section \<open>Routing (mcp-router.ts)\<close>

record MCPResult =
  source :: mcp_target
  data :: json
  result_timestamp :: nat
  cached :: bool

text \<open>\<open>parameters?.key || fallback\<close>\<close>

definition parameter_or :: "(string \<times> json) list option \<Rightarrow> string \<Rightarrow> json \<Rightarrow> json" where
  "parameter_or params key fallback =
     (case params of
        None \<Rightarrow> fallback
      | Some ps \<Rightarrow>
          (case map_of ps key of
             Some v \<Rightarrow> if truthy v then v else fallback
           | None \<Rightarrow> fallback))"

text \<open>The three server calls as the source implements them: simulated responses.\<close>

definition queryObservability ::
  "env \<Rightarrow> string \<Rightarrow> (string \<times> json) list option \<Rightarrow> js_error + MCPResult" where
  "queryObservability e query params =
     Inr \<lparr>source = Observability,
          data = JObj
            [(''query'', JStr query),
             (''timeRange'', parameter_or params ''timeRange'' (JStr ''1h'')),
             (''results'', JObj
                [(''logs'', JArr
                    [JObj [(''timestamp'', JStr (date_iso e)),
                           (''level'', JStr ''error''),
                           (''message'', JStr ''Example error log entry''),
                           (''worker'', JStr ''example-worker'')]]),
                 (''summary'', JObj
                    [(''totalRequests'', JNum 1250),
                     (''errorCount'', JNum 23),
                     (''avgResponseTime'', JNum 45)]),
                 (''note'', JStr ''This is a demonstration response. In production, this would query actual Workers Observability data via MCP.'')])],
          result_timestamp = date_now e 3,
          cached = False\<rparr>"

definition searchDocumentation ::
  "env \<Rightarrow> string \<Rightarrow> (string \<times> json) list option \<Rightarrow> js_error + MCPResult" where
  "searchDocumentation e query params =
     Inr \<lparr>source = Documentation,
          data = JObj
            [(''query'', JStr query),
             (''product'', parameter_or params ''product'' (JStr ''workers'')),
             (''results'', JArr
                [JObj [(''title'', JStr ''Workers Documentation''),
                       (''url'', JStr ''https://developers.cloudflare.com/workers/''),
                       (''excerpt'', JStr ''Build serverless applications on Cloudflare Workers...''),
                       (''relevance'', JNum 0.92)],
                 JObj [(''title'', JStr ''API Reference''),
                       (''url'', JStr ''https://developers.cloudflare.com/workers/runtime-apis/''),
                       (''excerpt'', JStr ''Complete API reference for Workers runtime...''),
                       (''relevance'', JNum 0.87)]]),
             (''note'', JStr ''This is a demonstration response. In production, this would search actual Cloudflare documentation via MCP.'')],
          result_timestamp = date_now e 3,
          cached = False\<rparr>"

definition queryBindings ::
  "env \<Rightarrow> string \<Rightarrow> (string \<times> json) list option \<Rightarrow> js_error + MCPResult" where
  "queryBindings e query params =
     Inr \<lparr>source = Bindings,
          data = JObj
            [(''query'', JStr query),
             (''resourceType'', parameter_or params ''resourceType'' (JStr ''all'')),
             (''resources'', JObj
                [(''kv'', JArr
                    [JObj [(''name'', JStr ''CHAT_HISTORY''),
                           (''id'', JStr ''example-kv-id''),
                           (''created'', JStr ''2024-01-15'')]]),
                 (''r2'', JArr
                    [JObj [(''name'', JStr ''assets-bucket''),
                           (''location'', JStr ''auto''),
                           (''created'', JStr ''2024-02-01'')]]),
                 (''durableObjects'', JArr
                    [JObj [(''name'', JStr ''OBSERVABILITY_AGENT''),
                           (''className'', JStr ''ObservabilityAgent''),
                           (''instances'', JNum 3)]])]),
             (''note'', JStr ''This is a demonstration response. In production, this would query actual Workers bindings via MCP.'')],
          result_timestamp = date_now e 3,
          cached = False\<rparr>"

text \<open>
  \<open>route\<close> calls the three methods through \<open>this\<close>; it is modelled over any three
  implementations, each of which may throw, the simulated ones above being one choice.
\<close>

record providers =
  p_queryObservability :: "string \<Rightarrow> (string \<times> json) list option \<Rightarrow> js_error + MCPResult"
  p_searchDocumentation :: "string \<Rightarrow> (string \<times> json) list option \<Rightarrow> js_error + MCPResult"
  p_queryBindings :: "string \<Rightarrow> (string \<times> json) list option \<Rightarrow> js_error + MCPResult"

definition simulated :: "env \<Rightarrow> providers" where
  "simulated e =
     \<lparr>p_queryObservability = queryObservability e,
      p_searchDocumentation = searchDocumentation e,
      p_queryBindings = queryBindings e\<rparr>"

text \<open>The \<open>switch\<close> inside the \<open>try\<close>; the target is known to be truthy here.\<close>

definition route_try :: "providers \<Rightarrow> mcp_target \<Rightarrow> Intent \<Rightarrow> string \<Rightarrow> js_error + MCPResult" where
  "route_try p target intent query =
     (case target of
        Observability \<Rightarrow> p_queryObservability p query (parameters intent)
      | Documentation \<Rightarrow> p_searchDocumentation p query (parameters intent)
      | Bindings \<Rightarrow> p_queryBindings p query (parameters intent)
      | OtherTarget text \<Rightarrow> Inl (Error (''Unknown MCP target: '' @ text)))"

definition route :: "env \<Rightarrow> providers \<Rightarrow> Intent \<Rightarrow> string \<Rightarrow> MCPResult" where
  "route e p intent query =
     (case targetMCP intent of
        None \<Rightarrow>
          \<lparr>source = Documentation, data = JNull, result_timestamp = date_now e 3, cached = False\<rparr>
      | Some target \<Rightarrow>
          (case route_try p target intent query of
             Inr result \<Rightarrow> result
           | Inl err \<Rightarrow>
               \<lparr>source = target,
                data = JObj
                  [(''error'', JBool True),
                   (''message'', JStr (error_message err)),
                   (''suggestion'', JStr ''Please try rephrasing your query or check your Cloudflare account permissions.'')],
                result_timestamp = date_now e 3,
                cached = False\<rparr>))"

definition getMCPEndpoint :: "mcp_target \<Rightarrow> string option" where
  "getMCPEndpoint target =
     (case target of
        Observability \<Rightarrow> Some ''https://observability.mcp.cloudflare.com/mcp''
      | Documentation \<Rightarrow> Some ''https://docs.mcp.cloudflare.com/mcp''
      | Bindings \<Rightarrow> Some ''https://bindings.mcp.cloudflare.com/mcp''
      | OtherTarget text \<Rightarrow> None)"


section \<open>The agent (ObservabilityAgent)\<close>

text \<open>
  The agent object: its session identifier, its in-memory \<open>state\<close>, and the value the
  durable storage holds under the key \<open>state\<close> (\<open>None\<close> before the first successful save).
\<close>

record ObservabilityAgent =
  agent_sessionId :: string
  state :: AgentState
  storage :: "AgentState option"

text \<open>
  \<open>query\<close> reaches its collaborators through the fields \<open>semanticMemory\<close>,
  \<open>llmOrchestrator\<close> and \<open>mcpRouter\<close>. It is modelled over any behaviour of the six methods
  it calls, each of which may throw; \<open>collaborators\<close> below gives the methods that the
  constructor installs.
\<close>

record components =
  semanticMemory_search :: "string \<Rightarrow> js_error + MemorySearchResult option"
  llmOrchestrator_classifyIntent :: "string \<Rightarrow> js_error + Intent"
  mcpRouter_route :: "Intent \<Rightarrow> string \<Rightarrow> js_error + MCPResult"
  llmOrchestrator_synthesize :: "string \<Rightarrow> json \<Rightarrow> string \<Rightarrow> js_error + string"
  llmOrchestrator_generateResponse :: "string \<Rightarrow> js_error + string"
  semanticMemory_store :: "string \<Rightarrow> string \<Rightarrow> string \<Rightarrow> js_error + unit"

definition collaborators :: "env \<Rightarrow> components" where
  "collaborators e =
     \<lparr>semanticMemory_search = (\<lambda>q. Inr (search e q None)),
      llmOrchestrator_classifyIntent = (\<lambda>q. Inr (classifyIntent e q)),
      mcpRouter_route = (\<lambda>intent q. Inr (route e (simulated e) intent q)),
      llmOrchestrator_synthesize = (\<lambda>q mcpData context. Inr (synthesize e q mcpData context)),
      llmOrchestrator_generateResponse = (\<lambda>q. Inr (generateResponse e q)),
      semanticMemory_store = (\<lambda>q a src. Inr (store e q a src))\<rparr>"

definition initialState :: "env \<Rightarrow> string \<Rightarrow> AgentState" where
  "initialState e sid =
     \<lparr>sessionId = sid,
      conversationHistory = [],
      mcpConnections = \<lparr>c_observability = False, c_documentation = False, c_bindings = False\<rparr>,
      lastActivity = date_now e 5,
      metadata =
        \<lparr>totalQueries = 0,
         cacheHits = 0,
         mcpCalls = \<lparr>n_observability = 0, n_documentation = 0, n_bindings = 0, stray = []\<rparr>\<rparr>\<rparr>"

text \<open>
  \<open>initializeState\<close>, from the point where its read of the storage has returned: the
  state is replaced by what was read, when something was read.
\<close>

definition initializeState :: "env \<Rightarrow> ObservabilityAgent \<Rightarrow> ObservabilityAgent" where
  "initializeState e a =
     (if storage_get_fails e then a
      else case storage a of Some stored \<Rightarrow> a\<lparr>state := stored\<rparr> | None \<Rightarrow> a)"

text \<open>
  The constructor, for a session identifier and what the storage holds: the agent with
  the state written out in the constructor. The constructor also calls
  \<open>initializeState\<close>, but does not wait for it: the agent exists, with this state, while
  the read of the storage is still under way. On a new session the storage holds
  nothing, and the read changes nothing whenever it returns.
\<close>

definition new_agent :: "env \<Rightarrow> string \<Rightarrow> AgentState option \<Rightarrow> ObservabilityAgent" where
  "new_agent e sid held =
     \<lparr>agent_sessionId = sid, state = initialState e sid, storage = held\<rparr>"

definition saveState :: "env \<Rightarrow> ObservabilityAgent \<Rightarrow> ObservabilityAgent" where
  "saveState e a = (if storage_put_fails e then a else a\<lparr>storage := Some (state a)\<rparr>)"

definition role_text :: "role \<Rightarrow> string" where
  "role_text r = (case r of System \<Rightarrow> ''system'' | User \<Rightarrow> ''user'' | Assistant \<Rightarrow> ''assistant'')"

definition target_text :: "mcp_target \<Rightarrow> string" where
  "target_text t =
     (case t of
        Observability \<Rightarrow> ''observability''
      | Documentation \<Rightarrow> ''documentation''
      | Bindings \<Rightarrow> ''bindings''
      | OtherTarget text \<Rightarrow> text)"

definition getConversationContext :: "AgentState \<Rightarrow> string" where
  "getConversationContext st =
     (let recent = slice_last 4 (conversationHistory st)
      in if length recent = 0 then []
         else join nl (map (\<lambda>msg. role_text (role msg) @ '': '' @ take 200 (content msg)) recent))"

text \<open>
  \<open>this.state.metadata.mcpCalls[source]++\<close>. A key that is none of the three counters
  gets the value \<open>NaN\<close>; assigning to \<open>__proto__\<close> creates no property.
\<close>

definition incrementMCPCounter :: "mcp_target \<Rightarrow> AgentState \<Rightarrow> AgentState" where
  "incrementMCPCounter src st =
     (let calls = mcpCalls (metadata st);
          key = target_text src;
          calls' =
            (if key = ''observability'' then calls\<lparr>n_observability := n_observability calls + 1\<rparr>
             else if key = ''documentation'' then calls\<lparr>n_documentation := n_documentation calls + 1\<rparr>
             else if key = ''bindings'' then calls\<lparr>n_bindings := n_bindings calls + 1\<rparr>
             else if key = ''__proto__'' then calls
             else calls\<lparr>stray := List.insert key (stray calls)\<rparr>)
      in st\<lparr>metadata := (metadata st)\<lparr>mcpCalls := calls'\<rparr>\<rparr>)"

definition createErrorResponse :: "js_error \<Rightarrow> string" where
  "createErrorResponse err =
     ''I apologize, but I encountered an error processing your request: '' @ error_message err @
     nl @ nl @ ''Please try:'' @ nl @
     ''- Rephrasing your question'' @ nl @
     ''- Asking a more specific question'' @ nl @
     ''- Checking if your Cloudflare account has the necessary permissions''"

text \<open>The answer returned on a cache hit.\<close>

definition cachedAnswer :: "env \<Rightarrow> MemorySearchResult \<Rightarrow> string" where
  "cachedAnswer e cachedResult =
     ''[Cached Answer - '' @ interpolate (mcpSource cachedResult) @ '']'' @ nl @ nl @
     interpolate (answer cachedResult) @ nl @ nl @
     ''_This answer was retrieved from memory (similarity: '' @
     toFixed e 1 (number_times e (score cachedResult) 100) @ ''%)_''"

text \<open>Steps 5 and after of \<open>query\<close>: store, append both messages, save.\<close>

definition query_finish ::
  "env \<Rightarrow> components \<Rightarrow> ObservabilityAgent \<Rightarrow> string \<Rightarrow> string \<Rightarrow> string \<Rightarrow>
   ObservabilityAgent \<times> (js_error + string)" where
  "query_finish e c a userMessage response src =
     (case semanticMemory_store c userMessage response src of
        Inl err \<Rightarrow> (a, Inl err)
      | Inr u \<Rightarrow>
          (let st1 = addToHistory (date_now e 1) User userMessage (state a);
               st2 = addToHistory (date_now e 2) Assistant response st1
           in (saveState e (a\<lparr>state := st2\<rparr>), Inr response)))"

text \<open>
  The body of the \<open>try\<close> block of \<open>query\<close>. A call that throws leaves the block with the
  agent as it is at that point.
\<close>

definition query_try ::
  "env \<Rightarrow> components \<Rightarrow> ObservabilityAgent \<Rightarrow> string \<Rightarrow>
   ObservabilityAgent \<times> (js_error + string)" where
  "query_try e c a userMessage =
     (case semanticMemory_search c userMessage of
        Inl err \<Rightarrow> (a, Inl err)
      | Inr (Some cachedResult) \<Rightarrow>
          (let st = state a;
               st' = st\<lparr>metadata := (metadata st)\<lparr>cacheHits := cacheHits (metadata st) + 1\<rparr>\<rparr>
           in (saveState e (a\<lparr>state := st'\<rparr>), Inr (cachedAnswer e cachedResult)))
      | Inr None \<Rightarrow>
          (case llmOrchestrator_classifyIntent c userMessage of
             Inl err \<Rightarrow> (a, Inl err)
           | Inr intent \<Rightarrow>
               (case targetMCP intent of
                  Some target \<Rightarrow>
                    (case mcpRouter_route c intent userMessage of
                       Inl err \<Rightarrow> (a, Inl err)
                     | Inr mcpResult \<Rightarrow>
                         (let a' = a\<lparr>state := incrementMCPCounter (source mcpResult) (state a)\<rparr>
                          in case llmOrchestrator_synthesize c userMessage (data mcpResult)
                                    (getConversationContext (state a')) of
                               Inl err \<Rightarrow> (a', Inl err)
                             | Inr response \<Rightarrow>
                                 query_finish e c a' userMessage response
                                   (target_text (source mcpResult))))
                | None \<Rightarrow>
                    (case llmOrchestrator_generateResponse c userMessage of
                       Inl err \<Rightarrow> (a, Inl err)
                     | Inr response \<Rightarrow> query_finish e c a userMessage response ''none''))))"

text \<open>The two updates \<open>query\<close> makes before its \<open>try\<close> block.\<close>

definition query_enter :: "env \<Rightarrow> ObservabilityAgent \<Rightarrow> ObservabilityAgent" where
  "query_enter e a =
     (let st = (state a)\<lparr>lastActivity := date_now e 0\<rparr>;
          st' = st\<lparr>metadata := (metadata st)\<lparr>totalQueries := totalQueries (metadata st) + 1\<rparr>\<rparr>
      in a\<lparr>state := st'\<rparr>)"

text \<open>\<open>query\<close> over any collaborators: the updates, the \<open>try\<close> block, the \<open>catch\<close>.\<close>

definition query_with ::
  "env \<Rightarrow> components \<Rightarrow> ObservabilityAgent \<Rightarrow> string \<Rightarrow> ObservabilityAgent \<times> string" where
  "query_with e c a userMessage =
     (case query_try e c (query_enter e a) userMessage of
        (a', Inr response) \<Rightarrow> (a', response)
      | (a', Inl err) \<Rightarrow> (a', createErrorResponse err))"

text \<open>\<open>query\<close> as the agent runs it.\<close>

definition query :: "env \<Rightarrow> ObservabilityAgent \<Rightarrow> string \<Rightarrow> ObservabilityAgent \<times> string" where
  "query e a userMessage = query_with e (collaborators e) a userMessage"

definition connectMCPs ::
  "env \<Rightarrow> ObservabilityAgent \<Rightarrow> ObservabilityAgent \<times> (string option \<times> string option \<times> string option)" where
  "connectMCPs e a =
     (let st = (state a)\<lparr>mcpConnections :=
                 \<lparr>c_observability = True, c_documentation = True, c_bindings = True\<rparr>\<rparr>
      in (saveState e (a\<lparr>state := st\<rparr>),
          (getMCPEndpoint Observability, getMCPEndpoint Documentation, getMCPEndpoint Bindings)))"

definition getHistory :: "ObservabilityAgent \<Rightarrow> ObservabilityAgent \<times> ChatMessage list" where
  "getHistory a = (a, slice_last 10 (conversationHistory (state a)))"

definition clearHistory :: "env \<Rightarrow> ObservabilityAgent \<Rightarrow> ObservabilityAgent" where
  "clearHistory e a = saveState e (a\<lparr>state := (state a)\<lparr>conversationHistory := []\<rparr>\<rparr>)"

definition getStats :: "ObservabilityAgent \<Rightarrow> ObservabilityAgent \<times> metadata" where
  "getStats a = (a, metadata (state a))"

subsection \<open>Sequences of operations\<close>

text \<open>
  One operation on a session, with the environment it runs in. The first five are the
  operations of the agent. \<open>Restart\<close> is the runtime discarding the object and
  constructing it again over the same storage, in the one case where the read that the
  constructor starts has returned before the next operation begins. The constructor
  does not wait for that read: when it returns while an operation is suspended, the
  state is replaced in the middle of that operation, and the updates the operation made
  before are lost to the state in memory. Such runs are not among the sequences of
  operations below, so a statement that ranges over \<open>Restart\<close> says nothing about them.
\<close>

datatype operation =
    HandleQuery env components string
  | ClearHistory env
  | ConnectMCPs env
  | GetHistory
  | GetStats
  | Restart env

fun step :: "ObservabilityAgent \<Rightarrow> operation \<Rightarrow> ObservabilityAgent" where
  "step a (HandleQuery e c userMessage) = fst (query_with e c a userMessage)"
| "step a (ClearHistory e) = clearHistory e a"
| "step a (ConnectMCPs e) = fst (connectMCPs e a)"
| "step a GetHistory = fst (getHistory a)"
| "step a GetStats = fst (getStats a)"
| "step a (Restart e) = initializeState e (new_agent e (agent_sessionId a) (storage a))"

definition run :: "ObservabilityAgent \<Rightarrow> operation list \<Rightarrow> ObservabilityAgent" where
  "run a ops = foldl step a ops"

text \<open>The five operations of the agent: every operation but the reconstruction.\<close>

fun named :: "operation \<Rightarrow> bool" where
  "named (HandleQuery e c userMessage) = True"
| "named (ClearHistory e) = True"
| "named (ConnectMCPs e) = True"
| "named GetHistory = True"
| "named GetStats = True"
| "named (Restart e) = False"

text \<open>
  A property of the session state that holds of the state in memory and of the state in
  storage.
\<close>

definition everywhere :: "(AgentState \<Rightarrow> bool) \<Rightarrow> ObservabilityAgent \<Rightarrow> bool" where
  "everywhere P a = (P (state a) \<and> (case storage a of None \<Rightarrow> True | Some held \<Rightarrow> P held))"

definition counters_ordered :: "AgentState \<Rightarrow> bool" where
  "counters_ordered st = (cacheHits (metadata st) \<le> totalQueries (metadata st))"

text \<open>User and assistant messages in pairs, in this order, and nothing else.\<close>

fun paired :: "ChatMessage list \<Rightarrow> bool" where
  "paired [] = True"
| "paired [m] = False"
| "paired (u # v # rest) = (role u = User \<and> role v = Assistant \<and> paired rest)"


section \<open>Concrete environments\<close>

text \<open>
  Environments on which the operations are evaluated below. In \<open>silent\<close> the embedding
  model fails, no tool is selected and the chat model returns nothing; the others change
  one service each.
\<close>

definition silent :: env where
  "silent =
     \<lparr>ai_embedding = (\<lambda>text. Inl NonError),
      vectorize_query = (\<lambda>v k. Inr []),
      vectorize_insert = (\<lambda>v m. Inr ()),
      ai_hermes = (\<lambda>q. Inr None),
      ai_llama = (\<lambda>ms n t. Inr None),
      storage_put_fails = False,
      storage_get_fails = False,
      date_now = (\<lambda>i. 1700000000000 + i),
      date_iso = ''2023-11-14T22:13:20.000Z'',
      number_times = (\<lambda>x y. x * y),
      number_toString = (\<lambda>x. ''1e+21''),
      json_stringify = (\<lambda>v. ''{}''),
      inherited_text = (\<lambda>k. ''function '' @ k @ ''() { [native code] }'')\<rparr>"

definition restart_answer :: VectorMetadata where
  "restart_answer =
     \<lparr>md_question = Some ''How do I restart a worker?'',
      md_answer = Some ''Deploy it again.'',
      md_mcpSource = Some ''documentation'',
      md_timestamp = Some 1699999999000\<rparr>"

text \<open>The index holds one entry, at the given similarity to every query.\<close>

definition remembering :: "real \<Rightarrow> env" where
  "remembering s =
     silent\<lparr>ai_embedding := (\<lambda>text. Inr (Some [[1, 0, 0]])),
            vectorize_query :=
              (\<lambda>v k. Inr [\<lparr>match_score = s, match_metadata = Some restart_answer\<rparr>])\<rparr>"

text \<open>The tool-calling model selects the given tool, with the given arguments.\<close>

definition selecting :: "string \<Rightarrow> (string \<times> json) list option \<Rightarrow> env" where
  "selecting tool args = silent\<lparr>ai_hermes := (\<lambda>q. Inr (Some [\<lparr>name = tool, arguments = args\<rparr>]))\<rparr>"

text \<open>The call of the tool-calling model throws.\<close>

definition hermes_down :: env where
  "hermes_down = silent\<lparr>ai_hermes := (\<lambda>q. Inl (Error ''3040: Capacity temporarily exceeded''))\<rparr>"

text \<open>Server calls that time out, and collaborators whose search throws.\<close>

definition timing_out :: providers where
  "timing_out =
     \<lparr>p_queryObservability = (\<lambda>q ps. Inl (Error ''request timed out'')),
      p_searchDocumentation = (\<lambda>q ps. Inl (Error ''request timed out'')),
      p_queryBindings = (\<lambda>q ps. Inl (Error ''request timed out''))\<rparr>"

definition search_throwing :: "js_error \<Rightarrow> components" where
  "search_throwing err = (collaborators silent)\<lparr>semanticMemory_search := (\<lambda>q. Inl err)\<rparr>"

definition fresh :: ObservabilityAgent where
  "fresh = new_agent silent ''session-1'' None"

text \<open>
  A short session: a question answered from the cache, a look at the history, a question
  on which the tool-calling model fails, and one answered without a tool.
\<close>

definition short_session :: "operation list" where
  "short_session =
     [HandleQuery (remembering 0.93) (collaborators (remembering 0.93)) ''How can I restart a worker?'',
      GetHistory,
      HandleQuery hermes_down (collaborators hermes_down) ''Why is my worker slow?'',
      HandleQuery silent (collaborators silent) ''Thanks'']"

text \<open>The first \<open>n\<close> messages of a conversation, as \<open>appendAll\<close> takes them.\<close>

definition numbered :: "nat \<Rightarrow> (nat \<times> role \<times> string) list" where
  "numbered n =
     map (\<lambda>i. (1700000000000 + i, if even i then User else Assistant, ''message '' @ decimal i))
       [0..<n]"

section \<open>History properties\<close>

lemma slice_last_short: "length xs \<le> n \<Longrightarrow> slice_last n xs = xs"
  by (simp add: slice_last_def)

lemma length_slice_last: "length (slice_last n xs) = min n (length xs)"
  by (simp add: slice_last_def)

lemma addToHistory_history:
  "conversationHistory (addToHistory t r c st) =
     slice_last 20 (conversationHistory st @ [\<lparr>role = r, content = c, timestamp = t\<rparr>])"
  by (simp add: addToHistory_def Let_def slice_last_short)

lemma slice_last_append:
  "slice_last n (slice_last n xs @ ys) = slice_last n (xs @ ys)"
  by (cases "length xs \<le> n") (auto simp add: slice_last_def add.commute)

lemma toMessage_simp [simp]:
  "toMessage (t, r, c) = \<lparr>role = r, content = c, timestamp = t\<rparr>"
  by (simp add: toMessage_def)

lemma appendAll_history:
  "ms \<noteq> [] \<Longrightarrow>
   conversationHistory (appendAll ms st) = slice_last 20 (conversationHistory st @ map toMessage ms)"
proof (induction ms arbitrary: st)
  case Nil
  then show ?case by simp
next
  case (Cons m ms)
  obtain t r c where m: "m = (t, r, c)" by (cases m)
  show ?case
  proof (cases "ms = []")
    case True
    then show ?thesis by (simp add: m addToHistory_history)
  next
    case False
    have "conversationHistory (appendAll (m # ms) st) =
          slice_last 20 (slice_last 20 (conversationHistory st @ [toMessage m]) @ map toMessage ms)"
      using Cons.IH [OF False] by (simp add: m addToHistory_history)
    also have "\<dots> = slice_last 20 ((conversationHistory st @ [toMessage m]) @ map toMessage ms)"
      by (rule slice_last_append)
    finally show ?thesis by simp
  qed
qed

text \<open>
  C5. After every append the history has at most 20 messages, whatever it held before,
  and appending 25 messages leaves exactly the last 20 of them, in their order.
\<close>

theorem history_cap:
  "length (conversationHistory (addToHistory t r c st)) \<le> 20 \<and>
   (length ms = 25 \<longrightarrow>
      conversationHistory (appendAll ms st) = drop 5 (map toMessage ms) \<and>
      length (conversationHistory (appendAll ms st)) = 20)"
proof -
  have a: "length (conversationHistory (addToHistory t r c st)) \<le> 20"
    by (simp add: addToHistory_history length_slice_last)
  have b: "conversationHistory (appendAll ms st) = drop 5 (map toMessage ms)"
    if len: "length ms = 25"
  proof -
    from len have ne: "ms \<noteq> []" by auto
    show ?thesis
      using len by (simp add: appendAll_history [OF ne] slice_last_def)
  qed
  from a b show ?thesis by auto
qed

lemma length_numbered: "length (numbered n) = n"
  by (simp add: numbered_def)

text \<open>
  C5 on 25 numbered messages: the messages 5 to 24 remain.
\<close>

theorem history_cap_witness:
  "length (numbered 25) = 25 \<and>
   length (conversationHistory (appendAll (numbered 25) (state fresh))) = 20 \<and>
   conversationHistory (appendAll (numbered 25) (state fresh)) = map toMessage (drop 5 (numbered 25)) \<and>
   map content (conversationHistory (appendAll (numbered 25) (state fresh))) =
     map (\<lambda>i. ''message '' @ decimal i) [5..<25]"
proof -
  have l: "length (numbered 25) = 25" by (rule length_numbered)
  have d: "drop 5 (numbered 25) =
      map (\<lambda>i. (1700000000000 + i, if even i then User else Assistant, ''message '' @ decimal i)) [5..<25]"
    by (simp add: numbered_def drop_map)
  from history_cap [where ms = "numbered 25", where st = "state fresh"] l
  have h: "conversationHistory (appendAll (numbered 25) (state fresh)) = drop 5 (map toMessage (numbered 25))"
    and n: "length (conversationHistory (appendAll (numbered 25) (state fresh))) = 20"
    by simp_all
  from h have h': "conversationHistory (appendAll (numbered 25) (state fresh)) = map toMessage (drop 5 (numbered 25))"
    by (simp add: drop_map)
  have "map content (map toMessage (drop 5 (numbered 25))) = map (\<lambda>i. ''message '' @ decimal i) [5..<25]"
    unfolding d by (simp add: comp_def del: upt_rec_numeral upt.simps)
  with l n h' show ?thesis by simp
qed

section \<open>The semantic cache\<close>

lemma search_Some_iff:
  "search e q thr = Some r \<longleftrightarrow>
     (\<exists>v m rest. generateEmbedding e q = Some v \<and> vectorize_query e v 3 = Inr (m # rest) \<and>
        (case thr of None \<Rightarrow> SIMILARITY_THRESHOLD | Some t \<Rightarrow> t) \<le> match_score m \<and>
        r = toResult m)"
  by (auto simp add: search_def search_try_def Let_def split: option.splits sum.splits list.splits if_splits)

text \<open>
  C1. \<open>search\<close> returns a result exactly when the embedding was computed, the index
  answered with a non-empty list of matches and the score of the first match is at least
  the threshold (\<open>SIMILARITY_THRESHOLD\<close>, 0.85, when none is given). The result is then
  the first match: its score, and the question, the answer, the source tag and the
  timestamp of its metadata (each \<open>undefined\<close> for a match without metadata). In every
  other case \<open>search\<close> returns nothing. A first match at exactly 0.85 is returned under
  the default threshold, one at 0.8499 is not.
\<close>

theorem search_threshold:
  "(search e q thr = Some r \<longleftrightarrow>
      (\<exists>v m rest. generateEmbedding e q = Some v \<and> vectorize_query e v 3 = Inr (m # rest) \<and>
         (case thr of None \<Rightarrow> SIMILARITY_THRESHOLD | Some t \<Rightarrow> t) \<le> match_score m \<and>
         r = \<lparr>score = match_score m,
               question = (case match_metadata m of None \<Rightarrow> None | Some md \<Rightarrow> md_question md),
               answer = (case match_metadata m of None \<Rightarrow> None | Some md \<Rightarrow> md_answer md),
               mcpSource = (case match_metadata m of None \<Rightarrow> None | Some md \<Rightarrow> md_mcpSource md),
               found_timestamp =
                 (case match_metadata m of None \<Rightarrow> None | Some md \<Rightarrow> md_timestamp md)\<rparr>)) \<and>
   SIMILARITY_THRESHOLD = 0.85 \<and>
   (generateEmbedding e q = Some v \<and> vectorize_query e v 3 = Inr (m # rest) \<and>
      match_score m = 0.85 \<longrightarrow>
        search e q None =
          Some \<lparr>score = match_score m,
               question = (case match_metadata m of None \<Rightarrow> None | Some md \<Rightarrow> md_question md),
               answer = (case match_metadata m of None \<Rightarrow> None | Some md \<Rightarrow> md_answer md),
               mcpSource = (case match_metadata m of None \<Rightarrow> None | Some md \<Rightarrow> md_mcpSource md),
               found_timestamp =
                 (case match_metadata m of None \<Rightarrow> None | Some md \<Rightarrow> md_timestamp md)\<rparr>) \<and>
   (generateEmbedding e q = Some v \<and> vectorize_query e v 3 = Inr (m # rest) \<and>
      match_score m = 0.8499 \<longrightarrow> search e q None = None)"
proof -
  have built: "toResult m = \<lparr>score = match_score m,
               question = (case match_metadata m of None \<Rightarrow> None | Some md \<Rightarrow> md_question md),
               answer = (case match_metadata m of None \<Rightarrow> None | Some md \<Rightarrow> md_answer md),
               mcpSource = (case match_metadata m of None \<Rightarrow> None | Some md \<Rightarrow> md_mcpSource md),
               found_timestamp =
                 (case match_metadata m of None \<Rightarrow> None | Some md \<Rightarrow> md_timestamp md)\<rparr>" for m
    by (cases "match_metadata m") (simp_all add: toResult_def)
  have general: "search e q thr = Some r \<longleftrightarrow>
      (\<exists>v m rest. generateEmbedding e q = Some v \<and> vectorize_query e v 3 = Inr (m # rest) \<and>
         (case thr of None \<Rightarrow> SIMILARITY_THRESHOLD | Some t \<Rightarrow> t) \<le> match_score m \<and>
         r = \<lparr>score = match_score m,
               question = (case match_metadata m of None \<Rightarrow> None | Some md \<Rightarrow> md_question md),
               answer = (case match_metadata m of None \<Rightarrow> None | Some md \<Rightarrow> md_answer md),
               mcpSource = (case match_metadata m of None \<Rightarrow> None | Some md \<Rightarrow> md_mcpSource md),
               found_timestamp =
                 (case match_metadata m of None \<Rightarrow> None | Some md \<Rightarrow> md_timestamp md)\<rparr>)"
    unfolding search_Some_iff built ..
  have at: "search e q None =
          Some \<lparr>score = match_score m,
               question = (case match_metadata m of None \<Rightarrow> None | Some md \<Rightarrow> md_question md),
               answer = (case match_metadata m of None \<Rightarrow> None | Some md \<Rightarrow> md_answer md),
               mcpSource = (case match_metadata m of None \<Rightarrow> None | Some md \<Rightarrow> md_mcpSource md),
               found_timestamp =
                 (case match_metadata m of None \<Rightarrow> None | Some md \<Rightarrow> md_timestamp md)\<rparr>"
    if "generateEmbedding e q = Some v \<and> vectorize_query e v 3 = Inr (m # rest) \<and>
      match_score m = 0.85"
    using that unfolding built [symmetric]
    by (simp add: search_def search_try_def SIMILARITY_THRESHOLD_def)
  have below: "search e q None = None"
    if "generateEmbedding e q = Some v \<and> vectorize_query e v 3 = Inr (m # rest) \<and>
      match_score m = 0.8499"
    using that by (simp add: search_def search_try_def SIMILARITY_THRESHOLD_def)
  have thr: "SIMILARITY_THRESHOLD = 0.85"
    by (simp add: SIMILARITY_THRESHOLD_def)
  from general thr at below show ?thesis by blast
qed

lemmas memory_eval =
  search_def search_try_def remembering_def silent_def generateEmbedding_def
  generateEmbedding_try_def SIMILARITY_THRESHOLD_def

text \<open>The two boundary cases of C1 on an index holding one entry.\<close>

theorem search_threshold_witness:
  "generateEmbedding (remembering 0.85) ''How to restart?'' = Some [1, 0, 0] \<and>
   vectorize_query (remembering 0.85) [1, 0, 0] 3 =
     Inr [\<lparr>match_score = 0.85, match_metadata = Some restart_answer\<rparr>] \<and>
   search (remembering 0.85) ''How to restart?'' None =
     Some \<lparr>score = 0.85,
           question = Some ''How do I restart a worker?'',
           answer = Some ''Deploy it again.'',
           mcpSource = Some ''documentation'',
           found_timestamp = Some 1699999999000\<rparr> \<and>
   generateEmbedding (remembering 0.8499) ''How to restart?'' = Some [1, 0, 0] \<and>
   vectorize_query (remembering 0.8499) [1, 0, 0] 3 =
     Inr [\<lparr>match_score = 0.8499, match_metadata = Some restart_answer\<rparr>] \<and>
   search (remembering 0.8499) ''How to restart?'' None = None"
proof -
  have e1: "generateEmbedding (remembering 0.85) ''How to restart?'' = Some [1, 0, 0]"
    by (simp add: memory_eval)
  have q1: "vectorize_query (remembering 0.85) [1, 0, 0] 3 =
     Inr [\<lparr>match_score = 0.85, match_metadata = Some restart_answer\<rparr>]"
    by (simp add: memory_eval)
  have e2: "generateEmbedding (remembering 0.8499) ''How to restart?'' = Some [1, 0, 0]"
    by (simp add: memory_eval)
  have q2: "vectorize_query (remembering 0.8499) [1, 0, 0] 3 =
     Inr [\<lparr>match_score = 0.8499, match_metadata = Some restart_answer\<rparr>]"
    by (simp add: memory_eval)
  have hit: "search (remembering 0.85) ''How to restart?'' None =
     Some \<lparr>score = 0.85,
           question = Some ''How do I restart a worker?'',
           answer = Some ''Deploy it again.'',
           mcpSource = Some ''documentation'',
           found_timestamp = Some 1699999999000\<rparr>"
    using search_threshold [of "remembering 0.85" "''How to restart?''" None _ "[1, 0, 0]"
        "\<lparr>match_score = 0.85, match_metadata = Some restart_answer\<rparr>" "[]"] e1 q1
    by (simp add: restart_answer_def)
  have miss: "search (remembering 0.8499) ''How to restart?'' None = None"
    using search_threshold [of "remembering 0.8499" "''How to restart?''" None _ "[1, 0, 0]"
        "\<lparr>match_score = 0.8499, match_metadata = Some restart_answer\<rparr>" "[]"] e2 q2
    by simp
  from e1 q1 hit e2 q2 miss show ?thesis by simp
qed

section \<open>Classification and routing\<close>

lemma tables_same_keys: "map_of toolToIntentType k = None \<longleftrightarrow> map_of toolToMCP k = None"
  by (simp add: toolToIntentType_def toolToMCP_def)

text \<open>
  C2, as the code has it. When the tool-calling model selects a tool whose name is
  neither a key of the mapping table nor the name of a property that every object
  inherits, \<open>classifyIntent\<close> returns type \<open>general\<close> and no target, as it does when no
  tool is selected, but with confidence 0.9 and with the arguments of the tool call as
  parameters (none when the call has no arguments).
\<close>

theorem classify_unmapped:
  assumes "ai_hermes e q = Inr (Some (toolCall # others))"
    and "map_of toolToMCP (name toolCall) = None"
    and "name toolCall \<notin> set objectPrototypeKeys"
  shows "classifyIntent e q =
           \<lparr>type = general, confidence = 0.9, targetMCP = None,
            parameters = Some (case arguments toolCall of Some a \<Rightarrow> a | None \<Rightarrow> [])\<rparr>"
proof -
  from assms(2) have "map_of toolToIntentType (name toolCall) = None"
    by (simp add: tables_same_keys)
  with assms show ?thesis
    by (simp add: classifyIntent_def classifyIntent_try_def mapToolToIntentType_def
        mapToolToMCP_def get_property_def Let_def)
qed

lemmas classify_eval =
  classifyIntent_def classifyIntent_try_def mapToolToIntentType_def mapToolToMCP_def
  get_property_def Let_def selecting_def silent_def toolToIntentType_def toolToMCP_def
  objectPrototypeKeys_def

text \<open>C2 as amended, on a tool name that is not in the table.\<close>

theorem classify_unmapped_witness:
  "ai_hermes (selecting ''restart_worker'' None) ''Restart my worker'' =
     Inr (Some [\<lparr>name = ''restart_worker'', arguments = None\<rparr>]) \<and>
   map_of toolToMCP ''restart_worker'' = None \<and>
   ''restart_worker'' \<notin> set objectPrototypeKeys \<and>
   classifyIntent (selecting ''restart_worker'' None) ''Restart my worker'' =
     \<lparr>type = general, confidence = 0.9, targetMCP = None, parameters = Some []\<rparr>"
proof -
  have h: "ai_hermes (selecting ''restart_worker'' None) ''Restart my worker'' =
     Inr (Some (\<lparr>name = ''restart_worker'', arguments = None\<rparr> # []))"
    by (simp add: selecting_def)
  have m: "map_of toolToMCP (name \<lparr>name = ''restart_worker'', arguments = None\<rparr>) = None"
    by (simp add: toolToMCP_def)
  have i: "name \<lparr>name = ''restart_worker'', arguments = None\<rparr> \<notin> set objectPrototypeKeys"
    by (simp add: objectPrototypeKeys_def)
  from classify_unmapped [OF h m i] h m i show ?thesis by simp
qed

text \<open>
  C2 as stated fails: for a selected tool that is not in the table the intent differs
  from the one returned when no tool is selected, in its confidence and its parameters.
\<close>

theorem classify_unmapped_counterexample:
  "map_of toolToMCP ''restart_worker'' = None \<and>
   map_of toolToIntentType ''restart_worker'' = None \<and>
   classifyIntent (selecting ''restart_worker'' (Some [(''worker'', JStr ''api'')])) ''Restart my worker'' =
     \<lparr>type = general, confidence = 0.9, targetMCP = None,
      parameters = Some [(''worker'', JStr ''api'')]\<rparr> \<and>
   classifyIntent silent ''Restart my worker'' =
     \<lparr>type = general, confidence = 0.5, targetMCP = None, parameters = Some []\<rparr> \<and>
   classifyIntent (selecting ''restart_worker'' (Some [(''worker'', JStr ''api'')])) ''Restart my worker'' \<noteq>
     \<lparr>type = general, confidence = 0.5, targetMCP = None, parameters = Some []\<rparr>"
  by (simp add: classify_eval)

text \<open>
  A selected tool named like an inherited property is not covered by the statement above:
  the lookup finds the inherited value, which becomes the target of the intent.
\<close>

lemma classify_inherited_name:
  "targetMCP (classifyIntent (selecting ''constructor'' None) q) =
     Some (OtherTarget ''function constructor() { [native code] }'')"
  by (simp add: classify_eval)

text \<open>
  With the simulated server calls of the source, the only exception inside \<open>route\<close> is
  the one of the default branch of its \<open>switch\<close>.
\<close>

lemma simulated_throws_only_unknown:
  "route_try (simulated e) target intent q = Inl err \<Longrightarrow>
     \<exists>other. target = OtherTarget other \<and> err = Error (''Unknown MCP target: '' @ other)"
  by (cases target)
    (simp_all add: route_try_def simulated_def queryObservability_def searchDocumentation_def
      queryBindings_def)

text \<open>
  C7. For an intent with a target, when the call of the server of that target throws,
  \<open>route\<close> returns a result whose source is that target and whose data is the object
  with \<open>error: true\<close>, the message of the error and the suggestion; a target that is none
  of the three servers ends in the same result, with the message of the error thrown for
  it. \<open>route\<close> returns a result in every case: no exception leaves it.
\<close>

theorem route_catches:
  assumes "targetMCP intent = Some target"
  shows "((target = Observability \<and> p_queryObservability p q (parameters intent) = Inl err) \<or>
          (target = Documentation \<and> p_searchDocumentation p q (parameters intent) = Inl err) \<or>
          (target = Bindings \<and> p_queryBindings p q (parameters intent) = Inl err) \<longrightarrow>
            route e p intent q =
              \<lparr>source = target,
               data = JObj [(''error'', JBool True),
                            (''message'', JStr (error_message err)),
                            (''suggestion'', JStr ''Please try rephrasing your query or check your Cloudflare account permissions.'')],
               result_timestamp = date_now e 3,
               cached = False\<rparr>) \<and>
         (target = OtherTarget other \<longrightarrow>
            route e p intent q =
              \<lparr>source = target,
               data = JObj [(''error'', JBool True),
                            (''message'', JStr (''Unknown MCP target: '' @ other)),
                            (''suggestion'', JStr ''Please try rephrasing your query or check your Cloudflare account permissions.'')],
               result_timestamp = date_now e 3,
               cached = False\<rparr>)"
  using assms by (auto simp add: route_def route_try_def error_message_def)

text \<open>
  C7 on a server call that times out, and on a target that is none of the three.
\<close>

theorem route_catches_witness:
  "targetMCP \<lparr>type = error_logs, confidence = 0.9, targetMCP = Some Observability,
              parameters = Some []\<rparr> = Some Observability \<and>
   p_queryObservability timing_out ''Show me error logs'' (Some []) = Inl (Error ''request timed out'') \<and>
   route silent timing_out
     \<lparr>type = error_logs, confidence = 0.9, targetMCP = Some Observability, parameters = Some []\<rparr>
     ''Show me error logs'' =
       \<lparr>source = Observability,
        data = JObj [(''error'', JBool True),
                     (''message'', JStr ''request timed out''),
                     (''suggestion'', JStr ''Please try rephrasing your query or check your Cloudflare account permissions.'')],
        result_timestamp = 1700000000003,
        cached = False\<rparr> \<and>
   route silent (simulated silent)
     \<lparr>type = general, confidence = 0.9, targetMCP = Some (OtherTarget ''metrics''), parameters = None\<rparr>
     ''Show me metrics'' =
       \<lparr>source = OtherTarget ''metrics'',
        data = JObj [(''error'', JBool True),
                     (''message'', JStr ''Unknown MCP target: metrics''),
                     (''suggestion'', JStr ''Please try rephrasing your query or check your Cloudflare account permissions.'')],
        result_timestamp = 1700000000003,
        cached = False\<rparr>"
proof -
  have a: "targetMCP \<lparr>type = error_logs, confidence = 0.9, targetMCP = Some Observability,
              parameters = Some []\<rparr> = Some Observability"
    by simp
  have b: "p_queryObservability timing_out ''Show me error logs''
             (parameters \<lparr>type = error_logs, confidence = 0.9, targetMCP = Some Observability,
              parameters = Some []\<rparr>) = Inl (Error ''request timed out'')"
    by (simp add: timing_out_def)
  have c: "targetMCP \<lparr>type = general, confidence = 0.9, targetMCP = Some (OtherTarget ''metrics''),
              parameters = None\<rparr> = Some (OtherTarget ''metrics'')"
    by simp
  have n: "date_now silent 3 = 1700000000003"
    by (simp add: silent_def)
  from route_catches [OF a, where p = timing_out, where q = "''Show me error logs''",
           where err = "Error ''request timed out''", where e = silent] b
       route_catches [OF c, where other = "''metrics''", where e = silent,
           where p = "simulated silent", where q = "''Show me metrics''"] n
  show ?thesis by (simp add: error_message_def)
qed

section \<open>The agent: one query\<close>

lemma decimal_digit: "n < 10 \<Longrightarrow> decimal n = [digit n]"
  by (simp add: decimal.simps)

lemma decimal_step: "10 \<le> n \<Longrightarrow> decimal n = decimal (n div 10) @ [digit (n mod 10)]"
  by (subst decimal.simps) simp

lemma decimal_nonempty: "decimal n \<noteq> []"
  by (cases "n < 10") (simp_all add: decimal_digit decimal_step)

lemma toFixed_one_place:
  assumes "0 \<le> x" and "x < 10 ^ 21"
  shows "toFixed e 1 x =
           decimal (nat \<lfloor>x * 10 + 1 / 2\<rfloor> div 10) @ ''.'' @ [digit (nat \<lfloor>x * 10 + 1 / 2\<rfloor> mod 10)]"
proof -
  define n where "n = nat \<lfloor>x * 10 + 1 / 2\<rfloor>"
  have pos: "\<not> x < 0" "\<bar>x\<bar> = x" "\<not> 10 ^ 21 \<le> x"
    using assms by simp_all
  show ?thesis
  proof (cases "n < 10")
    case True
    then have "n div 10 = 0" "n mod 10 = n" by simp_all
    moreover have "decimal n = [digit n]"
      using True by (simp add: decimal_digit)
    moreover have "decimal 0 = [digit 0]"
      by (simp add: decimal_digit)
    ultimately show ?thesis
      using pos unfolding n_def by (simp add: toFixed_def Let_def digit_def)
  next
    case False
    obtain d ds where D: "decimal (n div 10) = d # ds"
      using decimal_nonempty [of "n div 10"] by (cases "decimal (n div 10)") auto
    from False have "decimal n = (d # ds) @ [digit (n mod 10)]"
      by (simp add: decimal_step D)
    then show ?thesis
      using pos D unfolding n_def by (simp add: toFixed_def Let_def)
  qed
qed

lemmas number_eval = toFixed_def Let_def decimal_digit decimal_step digit_def


lemmas agent_eval =
  query_def query_with_def query_enter_def query_try_def query_finish_def collaborators_def
  fresh_def new_agent_def initializeState_def initialState_def saveState_def cachedAnswer_def
  interpolate_def createErrorResponse_def error_message_def


text \<open>
  C3. When the semantic cache returns a hit, \<open>query\<close> adds one to the total-query
  counter and one to the cache-hit counter, leaves every server-call counter and the
  conversation history as they were (of the state only these two counters and the time
  of the last activity change), saves the state, and returns the cached answer
  between the tag of its source and the similarity: the score times 100 through
  \<open>toFixed(1)\<close>, which for a value from 0 up to \<open>10 ^ 21\<close> is its nearest multiple of one
  tenth, written with one digit after the point.
\<close>

theorem cache_hit_short_circuit:
  assumes "semanticMemory_search c userMessage = Inr (Some cachedResult)"
  shows "totalQueries (metadata (state (fst (query_with e c a userMessage)))) =
           totalQueries (metadata (state a)) + 1 \<and>
         cacheHits (metadata (state (fst (query_with e c a userMessage)))) =
           cacheHits (metadata (state a)) + 1 \<and>
         mcpCalls (metadata (state (fst (query_with e c a userMessage)))) =
           mcpCalls (metadata (state a)) \<and>
         conversationHistory (state (fst (query_with e c a userMessage))) =
           conversationHistory (state a) \<and>
         state (fst (query_with e c a userMessage)) =
           (state a)\<lparr>lastActivity := date_now e 0,
                     metadata := (metadata (state a))
                       \<lparr>totalQueries := totalQueries (metadata (state a)) + 1,
                        cacheHits := cacheHits (metadata (state a)) + 1\<rparr>\<rparr> \<and>
         storage (fst (query_with e c a userMessage)) =
           (if storage_put_fails e then storage a
            else Some (state (fst (query_with e c a userMessage)))) \<and>
         snd (query_with e c a userMessage) =
           ''[Cached Answer - '' @ interpolate (mcpSource cachedResult) @ '']'' @ nl @ nl @
           interpolate (answer cachedResult) @ nl @ nl @
           ''_This answer was retrieved from memory (similarity: '' @
           toFixed e 1 (number_times e (score cachedResult) 100) @ ''%)_'' \<and>
         (0 \<le> number_times e (score cachedResult) 100 \<and>
          number_times e (score cachedResult) 100 < 10 ^ 21 \<longrightarrow>
            toFixed e 1 (number_times e (score cachedResult) 100) =
              decimal (nat \<lfloor>number_times e (score cachedResult) 100 * 10 + 1 / 2\<rfloor> div 10) @ ''.'' @
              [digit (nat \<lfloor>number_times e (score cachedResult) 100 * 10 + 1 / 2\<rfloor> mod 10)])"
proof -
  have q: "query_with e c a userMessage =
      (saveState e ((query_enter e a)\<lparr>state :=
          (state (query_enter e a))\<lparr>metadata :=
             (metadata (state (query_enter e a)))\<lparr>cacheHits :=
                cacheHits (metadata (state (query_enter e a))) + 1\<rparr>\<rparr>\<rparr>),
       cachedAnswer e cachedResult)"
    using assms by (simp add: query_with_def query_try_def Let_def)
  have fmt: "0 \<le> number_times e (score cachedResult) 100 \<and>
          number_times e (score cachedResult) 100 < 10 ^ 21 \<longrightarrow>
            toFixed e 1 (number_times e (score cachedResult) 100) =
              decimal (nat \<lfloor>number_times e (score cachedResult) 100 * 10 + 1 / 2\<rfloor> div 10) @ ''.'' @
              [digit (nat \<lfloor>number_times e (score cachedResult) 100 * 10 + 1 / 2\<rfloor> mod 10)]"
    using toFixed_one_place by blast
  have st: "state (fst (query_with e c a userMessage)) =
           (state a)\<lparr>lastActivity := date_now e 0,
                     metadata := (metadata (state a))
                       \<lparr>totalQueries := totalQueries (metadata (state a)) + 1,
                        cacheHits := cacheHits (metadata (state a)) + 1\<rparr>\<rparr>"
    unfolding q by (simp add: saveState_def query_enter_def Let_def)
  have sto: "storage (fst (query_with e c a userMessage)) =
           (if storage_put_fails e then storage a
            else Some (state (fst (query_with e c a userMessage))))"
    unfolding q by (simp add: saveState_def query_enter_def Let_def)
  have ans: "snd (query_with e c a userMessage) =
           ''[Cached Answer - '' @ interpolate (mcpSource cachedResult) @ '']'' @ nl @ nl @
           interpolate (answer cachedResult) @ nl @ nl @
           ''_This answer was retrieved from memory (similarity: '' @
           toFixed e 1 (number_times e (score cachedResult) 100) @ ''%)_''"
    unfolding q by (simp add: cachedAnswer_def)
  have cnt: "totalQueries (metadata (state (fst (query_with e c a userMessage)))) =
           totalQueries (metadata (state a)) + 1 \<and>
         cacheHits (metadata (state (fst (query_with e c a userMessage)))) =
           cacheHits (metadata (state a)) + 1 \<and>
         mcpCalls (metadata (state (fst (query_with e c a userMessage)))) =
           mcpCalls (metadata (state a)) \<and>
         conversationHistory (state (fst (query_with e c a userMessage))) =
           conversationHistory (state a)"
    unfolding st by simp
  from cnt st sto ans fmt show ?thesis by blast
qed

text \<open>
  C3 on a hit at similarity 0.8571, through the agent's own collaborators.
\<close>

theorem cache_hit_short_circuit_witness:
  "semanticMemory_search (collaborators (remembering 0.8571)) ''How can I restart a worker?'' =
     Inr (Some (toResult \<lparr>match_score = 0.8571, match_metadata = Some restart_answer\<rparr>)) \<and>
   metadata (state (fst (query (remembering 0.8571) fresh ''How can I restart a worker?''))) =
     \<lparr>totalQueries = 1, cacheHits = 1,
      mcpCalls = \<lparr>n_observability = 0, n_documentation = 0, n_bindings = 0, stray = []\<rparr>\<rparr> \<and>
   conversationHistory (state (fst (query (remembering 0.8571) fresh ''How can I restart a worker?''))) = [] \<and>
   0 \<le> number_times (remembering 0.8571) 0.8571 100 \<and>
   number_times (remembering 0.8571) 0.8571 100 < 10 ^ 21 \<and>
   toFixed (remembering 0.8571) 1 (number_times (remembering 0.8571) 0.8571 100) = ''85.7'' \<and>
   snd (query (remembering 0.8571) fresh ''How can I restart a worker?'') =
     ''[Cached Answer - documentation]'' @ nl @ nl @ ''Deploy it again.'' @ nl @ nl @
     ''_This answer was retrieved from memory (similarity: 85.7%)_''"
proof -
  have hit: "semanticMemory_search (collaborators (remembering 0.8571)) ''How can I restart a worker?'' =
     Inr (Some (toResult \<lparr>match_score = 0.8571, match_metadata = Some restart_answer\<rparr>))"
    by (simp add: collaborators_def memory_eval)
  have m0: "metadata (state fresh) =
     \<lparr>totalQueries = 0, cacheHits = 0,
      mcpCalls = \<lparr>n_observability = 0, n_documentation = 0, n_bindings = 0, stray = []\<rparr>\<rparr>"
    and h0: "conversationHistory (state fresh) = []"
    by (simp_all add: agent_eval silent_def)
  have b: "0 \<le> number_times (remembering 0.8571) 0.8571 100 \<and>
      number_times (remembering 0.8571) 0.8571 100 < 10 ^ 21"
    by (simp add: remembering_def silent_def)
  have sc: "score (toResult \<lparr>match_score = 0.8571, match_metadata = Some restart_answer\<rparr>) = 0.8571"
    by (simp add: toResult_def)
  note t = cache_hit_short_circuit [OF hit, of "remembering 0.8571" fresh]
  from t have "0 \<le> number_times (remembering 0.8571)
                 (score (toResult \<lparr>match_score = 0.8571, match_metadata = Some restart_answer\<rparr>)) 100 \<and>
      number_times (remembering 0.8571)
        (score (toResult \<lparr>match_score = 0.8571, match_metadata = Some restart_answer\<rparr>)) 100 < 10 ^ 21 \<longrightarrow>
      toFixed (remembering 0.8571) 1
        (number_times (remembering 0.8571)
          (score (toResult \<lparr>match_score = 0.8571, match_metadata = Some restart_answer\<rparr>)) 100) =
      decimal (nat \<lfloor>number_times (remembering 0.8571)
          (score (toResult \<lparr>match_score = 0.8571, match_metadata = Some restart_answer\<rparr>)) 100 * 10 + 1 / 2\<rfloor> div 10) @ ''.'' @
      [digit (nat \<lfloor>number_times (remembering 0.8571)
          (score (toResult \<lparr>match_score = 0.8571, match_metadata = Some restart_answer\<rparr>)) 100 * 10 + 1 / 2\<rfloor> mod 10)]"
    by blast
  then have "0 \<le> number_times (remembering 0.8571) 0.8571 100 \<and>
      number_times (remembering 0.8571) 0.8571 100 < 10 ^ 21 \<longrightarrow>
      toFixed (remembering 0.8571) 1 (number_times (remembering 0.8571) 0.8571 100) =
      decimal (nat \<lfloor>number_times (remembering 0.8571) 0.8571 100 * 10 + 1 / 2\<rfloor> div 10) @ ''.'' @
      [digit (nat \<lfloor>number_times (remembering 0.8571) 0.8571 100 * 10 + 1 / 2\<rfloor> mod 10)]"
    unfolding sc .
  with b have "toFixed (remembering 0.8571) 1 (number_times (remembering 0.8571) 0.8571 100) =
      decimal (nat \<lfloor>number_times (remembering 0.8571) 0.8571 100 * 10 + 1 / 2\<rfloor> div 10) @ ''.'' @
      [digit (nat \<lfloor>number_times (remembering 0.8571) 0.8571 100 * 10 + 1 / 2\<rfloor> mod 10)]"
    by blast
  then have pct: "toFixed (remembering 0.8571) 1 (number_times (remembering 0.8571) 0.8571 100) = ''85.7''"
    by (simp add: remembering_def silent_def decimal_digit decimal_step digit_def)
  have md: "metadata (state (fst (query (remembering 0.8571) fresh ''How can I restart a worker?''))) =
     \<lparr>totalQueries = 1, cacheHits = 1,
      mcpCalls = \<lparr>n_observability = 0, n_documentation = 0, n_bindings = 0, stray = []\<rparr>\<rparr>"
    using t m0 by (simp add: query_def metadata.equality)
  have hs: "conversationHistory (state (fst (query (remembering 0.8571) fresh ''How can I restart a worker?''))) = []"
    using t h0 by (simp add: query_def)
  have an: "snd (query (remembering 0.8571) fresh ''How can I restart a worker?'') =
     ''[Cached Answer - documentation]'' @ nl @ nl @ ''Deploy it again.'' @ nl @ nl @
     ''_This answer was retrieved from memory (similarity: 85.7%)_''"
    using t pct by (simp add: query_def toResult_def restart_answer_def interpolate_def)
  from hit md hs an pct b show ?thesis by blast
qed

text \<open>Where the \<open>try\<close> block of \<open>query\<close> is left by an exception.\<close>

lemma context_incrementMCPCounter:
  "getConversationContext (incrementMCPCounter src st) = getConversationContext st"
  by (simp add: getConversationContext_def incrementMCPCounter_def Let_def)

lemma context_query_enter:
  "getConversationContext (state (query_enter e a)) = getConversationContext (state a)"
  by (simp add: getConversationContext_def query_enter_def Let_def)

lemma query_finish_throws:
  "snd (query_finish e c b m response src) = Inl err \<longleftrightarrow>
     semanticMemory_store c m response src = Inl err"
  by (simp add: query_finish_def Let_def split: sum.splits)

lemma query_try_throws:
  "snd (query_try e c (query_enter e a) m) = Inl err \<longleftrightarrow>
     semanticMemory_search c m = Inl err \<or>
     (semanticMemory_search c m = Inr None \<and>
      (llmOrchestrator_classifyIntent c m = Inl err \<or>
       (\<exists>intent. llmOrchestrator_classifyIntent c m = Inr intent \<and>
          (if targetMCP intent = None
           then llmOrchestrator_generateResponse c m = Inl err \<or>
                (\<exists>response. llmOrchestrator_generateResponse c m = Inr response \<and>
                   semanticMemory_store c m response ''none'' = Inl err)
           else mcpRouter_route c intent m = Inl err \<or>
                (\<exists>mcpResult. mcpRouter_route c intent m = Inr mcpResult \<and>
                   (llmOrchestrator_synthesize c m (data mcpResult)
                      (getConversationContext (state a)) = Inl err \<or>
                    (\<exists>response.
                       llmOrchestrator_synthesize c m (data mcpResult)
                         (getConversationContext (state a)) = Inr response \<and>
                       semanticMemory_store c m response (target_text (source mcpResult)) =
                         Inl err)))))))"
proof (cases "semanticMemory_search c m")
  case (Inl x)
  then show ?thesis by (simp add: query_try_def)
next
  case found: (Inr r)
  show ?thesis
  proof (cases r)
    case (Some cachedResult)
    with found show ?thesis by (simp add: query_try_def Let_def)
  next
    case None
    show ?thesis
    proof (cases "llmOrchestrator_classifyIntent c m")
      case (Inl x)
      with found None show ?thesis by (simp add: query_try_def)
    next
      case classified: (Inr intent)
      show ?thesis
      proof (cases "targetMCP intent")
        case no_target: None
        with found None classified show ?thesis
          by (simp add: query_try_def query_finish_throws split: sum.splits)
      next
        case (Some target)
        with found None classified show ?thesis
          by (simp add: query_try_def query_finish_throws Let_def context_incrementMCPCounter
              context_query_enter split: sum.splits)
      qed
    qed
  qed
qed


text \<open>
  C4, as the code has it. The \<open>try\<close> block of \<open>query\<close> is left by an exception exactly
  when one of the calls it makes throws (the search, the classification, the routing,
  the synthesis or the direct generation, the store). The caller then receives a text
  of fixed shape and no exception: an apology that quotes the message of the error
  (\<open>Unknown error\<close> for a thrown value that is no \<open>Error\<close>), then the fixed advice to
  rephrase, to ask more specifically and to check permissions. The agent is left as it
  was when the exception was thrown.
\<close>

theorem top_level_catch:
  "(snd (query_try e c (query_enter e a) userMessage) = Inl err \<longleftrightarrow>
      semanticMemory_search c userMessage = Inl err \<or>
      (semanticMemory_search c userMessage = Inr None \<and>
       (llmOrchestrator_classifyIntent c userMessage = Inl err \<or>
        (\<exists>intent. llmOrchestrator_classifyIntent c userMessage = Inr intent \<and>
           (if targetMCP intent = None
            then llmOrchestrator_generateResponse c userMessage = Inl err \<or>
                 (\<exists>response. llmOrchestrator_generateResponse c userMessage = Inr response \<and>
                    semanticMemory_store c userMessage response ''none'' = Inl err)
            else mcpRouter_route c intent userMessage = Inl err \<or>
                 (\<exists>mcpResult. mcpRouter_route c intent userMessage = Inr mcpResult \<and>
                    (llmOrchestrator_synthesize c userMessage (data mcpResult)
                       (getConversationContext (state a)) = Inl err \<or>
                     (\<exists>response.
                        llmOrchestrator_synthesize c userMessage (data mcpResult)
                          (getConversationContext (state a)) = Inr response \<and>
                        semanticMemory_store c userMessage response
                          (target_text (source mcpResult)) = Inl err)))))))) \<and>
   (snd (query_try e c (query_enter e a) userMessage) = Inl err \<longrightarrow>
      query_with e c a userMessage =
        (fst (query_try e c (query_enter e a) userMessage),
         ''I apologize, but I encountered an error processing your request: '' @
         (case err of Error message \<Rightarrow> message | NonError \<Rightarrow> ''Unknown error'') @
         nl @ nl @ ''Please try:'' @ nl @
         ''- Rephrasing your question'' @ nl @
         ''- Asking a more specific question'' @ nl @
         ''- Checking if your Cloudflare account has the necessary permissions''))"
proof (intro conjI impI)
  show "snd (query_try e c (query_enter e a) userMessage) = Inl err \<longleftrightarrow>
      semanticMemory_search c userMessage = Inl err \<or>
      (semanticMemory_search c userMessage = Inr None \<and>
       (llmOrchestrator_classifyIntent c userMessage = Inl err \<or>
        (\<exists>intent. llmOrchestrator_classifyIntent c userMessage = Inr intent \<and>
           (if targetMCP intent = None
            then llmOrchestrator_generateResponse c userMessage = Inl err \<or>
                 (\<exists>response. llmOrchestrator_generateResponse c userMessage = Inr response \<and>
                    semanticMemory_store c userMessage response ''none'' = Inl err)
            else mcpRouter_route c intent userMessage = Inl err \<or>
                 (\<exists>mcpResult. mcpRouter_route c intent userMessage = Inr mcpResult \<and>
                    (llmOrchestrator_synthesize c userMessage (data mcpResult)
                       (getConversationContext (state a)) = Inl err \<or>
                     (\<exists>response.
                        llmOrchestrator_synthesize c userMessage (data mcpResult)
                          (getConversationContext (state a)) = Inr response \<and>
                        semanticMemory_store c userMessage response
                          (target_text (source mcpResult)) = Inl err)))))))"
    by (rule query_try_throws)
next
  assume thrown: "snd (query_try e c (query_enter e a) userMessage) = Inl err"
  obtain a' r where res: "query_try e c (query_enter e a) userMessage = (a', r)"
    by (cases "query_try e c (query_enter e a) userMessage")
  with thrown show "query_with e c a userMessage =
        (fst (query_try e c (query_enter e a) userMessage),
         ''I apologize, but I encountered an error processing your request: '' @
         (case err of Error message \<Rightarrow> message | NonError \<Rightarrow> ''Unknown error'') @
         nl @ nl @ ''Please try:'' @ nl @
         ''- Rephrasing your question'' @ nl @
         ''- Asking a more specific question'' @ nl @
         ''- Checking if your Cloudflare account has the necessary permissions'')"
    by (simp add: query_with_def createErrorResponse_def error_message_def)
qed

text \<open>
  C4 as amended, when the search of the semantic memory throws a value that is no \<open>Error\<close>.
\<close>

theorem top_level_catch_witness:
  "semanticMemory_search (search_throwing NonError) ''Show me error logs'' = Inl NonError \<and>
   snd (query_try silent (search_throwing NonError) (query_enter silent fresh) ''Show me error logs'') =
     Inl NonError \<and>
   snd (query_with silent (search_throwing NonError) fresh ''Show me error logs'') =
     ''I apologize, but I encountered an error processing your request: Unknown error'' @
     nl @ nl @ ''Please try:'' @ nl @
     ''- Rephrasing your question'' @ nl @
     ''- Asking a more specific question'' @ nl @
     ''- Checking if your Cloudflare account has the necessary permissions''"
proof -
  have s: "semanticMemory_search (search_throwing NonError) ''Show me error logs'' = Inl NonError"
    by (simp add: search_throwing_def)
  note t = top_level_catch [of silent "search_throwing NonError" fresh "''Show me error logs''" NonError]
  from t s have thrown:
    "snd (query_try silent (search_throwing NonError) (query_enter silent fresh) ''Show me error logs'') =
       Inl NonError"
    by blast
  with t have "query_with silent (search_throwing NonError) fresh ''Show me error logs'' =
        (fst (query_try silent (search_throwing NonError) (query_enter silent fresh) ''Show me error logs''),
         ''I apologize, but I encountered an error processing your request: '' @
         (case NonError of Error message \<Rightarrow> message | NonError \<Rightarrow> ''Unknown error'') @
         nl @ nl @ ''Please try:'' @ nl @
         ''- Rephrasing your question'' @ nl @
         ''- Asking a more specific question'' @ nl @
         ''- Checking if your Cloudflare account has the necessary permissions'')"
    by blast
  with s thrown show ?thesis by simp
qed

text \<open>
  C4 as stated fails: the answer is not limited to generic guidance, it carries the
  message of the internal error, whatever that message says.
\<close>

theorem top_level_catch_counterexample:
  "semanticMemory_search (search_throwing (Error ''SQLITE_BUSY: database is locked''))
     ''Show me error logs'' = Inl (Error ''SQLITE_BUSY: database is locked'') \<and>
   sublist ''SQLITE_BUSY: database is locked''
     (snd (query_with silent (search_throwing (Error ''SQLITE_BUSY: database is locked'')) fresh
        ''Show me error logs''))"
proof -
  have "snd (query_with silent (search_throwing (Error ''SQLITE_BUSY: database is locked'')) fresh
        ''Show me error logs'') =
      ''I apologize, but I encountered an error processing your request: '' @
      ''SQLITE_BUSY: database is locked'' @
      (nl @ nl @ ''Please try:'' @ nl @
      ''- Rephrasing your question'' @ nl @
      ''- Asking a more specific question'' @ nl @
      ''- Checking if your Cloudflare account has the necessary permissions'')"
    by (simp add: query_with_def query_try_def search_throwing_def createErrorResponse_def
        error_message_def)
  then show ?thesis
    by (simp only: sublist_appendI) (simp add: search_throwing_def)
qed


text \<open>
  The methods that the constructor installs catch what their own calls throw, so with
  them no exception leaves the \<open>try\<close> block.
\<close>

lemma own_collaborators_never_throw:
  "snd (query_try e (collaborators e) (query_enter e a) userMessage) \<noteq> Inl err"
  by (simp add: query_try_throws collaborators_def)

text \<open>
  C6. When the call of the tool-calling model throws, the exception is met by the
  \<open>catch\<close> of \<open>classifyIntent\<close>, which returns the intent \<open>general\<close> with confidence
  0.3, no target and no parameters; and when the cache has no hit, the \<open>try\<close> block of
  \<open>query\<close> ends without an exception, the answer is the one of \<open>generateResponse\<close>, no
  server-call counter changes, and the user message and that answer are appended to the
  history.
\<close>

theorem classifier_failure_fallback:
  assumes "ai_hermes e userMessage = Inl err"
  shows "classifyIntent_try e userMessage = Inl err \<and>
         classifyIntent e userMessage =
           \<lparr>type = general, confidence = 0.3, targetMCP = None, parameters = Some []\<rparr> \<and>
         (search e userMessage None = None \<longrightarrow>
            snd (query_try e (collaborators e) (query_enter e a) userMessage) =
              Inr (generateResponse e userMessage) \<and>
            snd (query e a userMessage) = generateResponse e userMessage \<and>
            mcpCalls (metadata (state (fst (query e a userMessage)))) =
              mcpCalls (metadata (state a)) \<and>
            conversationHistory (state (fst (query e a userMessage))) =
              slice_last 20
                (conversationHistory (state a) @
                 [\<lparr>role = User, content = userMessage, timestamp = date_now e 1\<rparr>,
                  \<lparr>role = Assistant, content = generateResponse e userMessage,
                   timestamp = date_now e 2\<rparr>]))"
proof -
  have ci: "classifyIntent e userMessage =
           \<lparr>type = general, confidence = 0.3, targetMCP = None, parameters = Some []\<rparr>"
    using assms by (simp add: classifyIntent_def classifyIntent_try_def)
  have direct: "query_try e (collaborators e) b userMessage =
      (saveState e (b\<lparr>state :=
          addToHistory (date_now e 2) Assistant (generateResponse e userMessage)
            (addToHistory (date_now e 1) User userMessage (state b))\<rparr>),
       Inr (generateResponse e userMessage))"
    if "search e userMessage None = None" for b
    using that ci by (simp add: query_try_def query_finish_def collaborators_def Let_def)
  have hist: "conversationHistory (addToHistory t2 r2 c2 (addToHistory t1 r1 c1 st)) =
      slice_last 20 (conversationHistory st @
        [\<lparr>role = r1, content = c1, timestamp = t1\<rparr>, \<lparr>role = r2, content = c2, timestamp = t2\<rparr>])"
    for t1 t2 r1 r2 c1 c2 st
    using slice_last_append [of 20 "conversationHistory st @ [\<lparr>role = r1, content = c1, timestamp = t1\<rparr>]"
        "[\<lparr>role = r2, content = c2, timestamp = t2\<rparr>]"]
    by (simp add: addToHistory_history)
  have meta: "metadata (addToHistory t r c st) = metadata st" for t r c st
    by (simp add: addToHistory_def Let_def)
  show ?thesis
  proof (intro conjI impI)
    show "classifyIntent_try e userMessage = Inl err"
      using assms by (simp add: classifyIntent_try_def)
  next
    show "classifyIntent e userMessage =
           \<lparr>type = general, confidence = 0.3, targetMCP = None, parameters = Some []\<rparr>"
      by (rule ci)
  next
    assume miss: "search e userMessage None = None"
    show "snd (query_try e (collaborators e) (query_enter e a) userMessage) =
              Inr (generateResponse e userMessage)"
      by (simp add: direct [OF miss])
    show "snd (query e a userMessage) = generateResponse e userMessage"
      by (simp add: query_def query_with_def direct [OF miss])
    show "mcpCalls (metadata (state (fst (query e a userMessage)))) =
              mcpCalls (metadata (state a))"
      by (simp add: query_def query_with_def direct [OF miss] saveState_def meta query_enter_def Let_def)
    show "conversationHistory (state (fst (query e a userMessage))) =
              slice_last 20
                (conversationHistory (state a) @
                 [\<lparr>role = User, content = userMessage, timestamp = date_now e 1\<rparr>,
                  \<lparr>role = Assistant, content = generateResponse e userMessage,
                   timestamp = date_now e 2\<rparr>])"
      by (simp add: query_def query_with_def direct [OF miss] saveState_def hist query_enter_def Let_def)
  qed
qed

text \<open>
  C6 in an environment where the tool-calling model is out of capacity.
\<close>

theorem classifier_failure_fallback_witness:
  "ai_hermes hermes_down ''Why is my worker slow?'' = Inl (Error ''3040: Capacity temporarily exceeded'') \<and>
   search hermes_down ''Why is my worker slow?'' None = None \<and>
   classifyIntent hermes_down ''Why is my worker slow?'' =
     \<lparr>type = general, confidence = 0.3, targetMCP = None, parameters = Some []\<rparr> \<and>
   snd (query hermes_down fresh ''Why is my worker slow?'') =
     ''I understand your question, but I need more specific information to help. Could you provide more details?'' \<and>
   map role (conversationHistory (state (fst (query hermes_down fresh ''Why is my worker slow?'')))) =
     [User, Assistant]"
proof -
  have h: "ai_hermes hermes_down ''Why is my worker slow?'' = Inl (Error ''3040: Capacity temporarily exceeded'')"
    by (simp add: hermes_down_def)
  have miss: "search hermes_down ''Why is my worker slow?'' None = None"
    by (simp add: hermes_down_def silent_def search_def search_try_def generateEmbedding_def
        generateEmbedding_try_def)
  have g: "generateResponse hermes_down ''Why is my worker slow?'' =
     ''I understand your question, but I need more specific information to help. Could you provide more details?''"
    by (simp add: generateResponse_def generateResponse_try_def hermes_down_def silent_def)
  have h0: "conversationHistory (state fresh) = []"
    by (simp add: agent_eval)
  note t = classifier_failure_fallback [OF h, of fresh]
  from t miss h g h0 show ?thesis by (simp add: slice_last_def)
qed


text \<open>
  C10. \<open>clearHistory\<close> empties the conversation history and leaves every other field
  of the state as it was: the session identifier, the connection flags, the time of the
  last activity and the metadata with all its counters.
\<close>

theorem clearHistory_frame:
  "conversationHistory (state (clearHistory e a)) = [] \<and>
   state (clearHistory e a) = (state a)\<lparr>conversationHistory := []\<rparr> \<and>
   sessionId (state (clearHistory e a)) = sessionId (state a) \<and>
   agent_sessionId (clearHistory e a) = agent_sessionId a \<and>
   mcpConnections (state (clearHistory e a)) = mcpConnections (state a) \<and>
   lastActivity (state (clearHistory e a)) = lastActivity (state a) \<and>
   metadata (state (clearHistory e a)) = metadata (state a) \<and>
   totalQueries (metadata (state (clearHistory e a))) = totalQueries (metadata (state a)) \<and>
   cacheHits (metadata (state (clearHistory e a))) = cacheHits (metadata (state a)) \<and>
   mcpCalls (metadata (state (clearHistory e a))) = mcpCalls (metadata (state a))"
  by (simp add: clearHistory_def saveState_def)

section \<open>Sequences of operations\<close>

subsection \<open>Properties that every operation keeps\<close>

text \<open>
  \<open>P\<close> is the property to keep, \<open>Q\<close> what holds between the entry of \<open>query\<close> and its
  last update.
\<close>

lemma query_finish_keeps:
  assumes q: "Q (state a)"
    and held: "case storage a of None \<Rightarrow> True | Some h \<Rightarrow> P h"
    and weaken: "\<And>st. Q st \<Longrightarrow> P st"
    and append: "\<And>st t1 t2 response. Q st \<Longrightarrow>
                   P (addToHistory t2 Assistant response (addToHistory t1 User m st))"
  shows "everywhere P (fst (query_finish e c a m response src))"
proof (cases "semanticMemory_store c m response src")
  case (Inl err)
  with q held weaken show ?thesis
    by (simp add: query_finish_def everywhere_def)
next
  case (Inr u)
  with q held append show ?thesis
    by (simp add: query_finish_def everywhere_def saveState_def Let_def)
qed

lemma query_try_keeps:
  assumes q: "Q (state a)"
    and held: "case storage a of None \<Rightarrow> True | Some h \<Rightarrow> P h"
    and weaken: "\<And>st. Q st \<Longrightarrow> P st"
    and count: "\<And>st src. Q st \<Longrightarrow> Q (incrementMCPCounter src st)"
    and hit: "\<And>st. Q st \<Longrightarrow>
                P (st\<lparr>metadata := (metadata st)\<lparr>cacheHits := cacheHits (metadata st) + 1\<rparr>\<rparr>)"
    and append: "\<And>st t1 t2 response. Q st \<Longrightarrow>
                   P (addToHistory t2 Assistant response (addToHistory t1 User m st))"
  shows "everywhere P (fst (query_try e c a m))"
proof -
  have same: "everywhere P a"
    using q held weaken by (simp add: everywhere_def)
  have fin: "everywhere P (fst (query_finish e c b m response src))"
    if "Q (state b)" and "storage b = storage a" for b response src
    using that held by (intro query_finish_keeps [where Q = Q] weaken append) simp_all
  show ?thesis
  proof (cases "semanticMemory_search c m")
    case (Inl err)
    with same show ?thesis by (simp add: query_try_def)
  next
    case found: (Inr r)
    show ?thesis
    proof (cases r)
      case (Some cachedResult)
      with found hit [OF q] held show ?thesis
        by (simp add: query_try_def everywhere_def saveState_def Let_def)
    next
      case None
      show ?thesis
      proof (cases "llmOrchestrator_classifyIntent c m")
        case (Inl err)
        with found None same show ?thesis by (simp add: query_try_def)
      next
        case classified: (Inr intent)
        show ?thesis
        proof (cases "targetMCP intent")
          case no_target: None
          show ?thesis
          proof (cases "llmOrchestrator_generateResponse c m")
            case (Inl err)
            with found None classified no_target same show ?thesis
              by (simp add: query_try_def)
          next
            case (Inr response)
            with found None classified no_target fin [OF q refl] show ?thesis
              by (simp add: query_try_def)
          qed
        next
          case target: (Some t)
          show ?thesis
          proof (cases "mcpRouter_route c intent m")
            case (Inl err)
            with found None classified target same show ?thesis
              by (simp add: query_try_def)
          next
            case routed: (Inr mcpResult)
            let ?b = "a\<lparr>state := incrementMCPCounter (source mcpResult) (state a)\<rparr>"
            have qb: "Q (state ?b)" using count [OF q] by simp
            have sb: "storage ?b = storage a" by simp
            show ?thesis
            proof (cases "llmOrchestrator_synthesize c m (data mcpResult)
                            (getConversationContext (state ?b))")
              case (Inl err)
              with found None classified target routed qb held weaken show ?thesis
                by (simp add: query_try_def everywhere_def Let_def)
            next
              case (Inr response)
              with found None classified target routed fin [OF qb sb] show ?thesis
                by (simp add: query_try_def Let_def)
            qed
          qed
        qed
      qed
    qed
  qed
qed

lemma query_with_keeps:
  assumes inv: "everywhere P a"
    and enter: "\<And>st t. P st \<Longrightarrow>
       Q (st\<lparr>lastActivity := t,
              metadata := (metadata st)\<lparr>totalQueries := totalQueries (metadata st) + 1\<rparr>\<rparr>)"
    and weaken: "\<And>st. Q st \<Longrightarrow> P st"
    and count: "\<And>st src. Q st \<Longrightarrow> Q (incrementMCPCounter src st)"
    and hit: "\<And>st. Q st \<Longrightarrow>
                P (st\<lparr>metadata := (metadata st)\<lparr>cacheHits := cacheHits (metadata st) + 1\<rparr>\<rparr>)"
    and append: "\<And>st t1 t2 response. Q st \<Longrightarrow>
                   P (addToHistory t2 Assistant response (addToHistory t1 User m st))"
  shows "everywhere P (fst (query_with e c a m))"
proof -
  have q: "Q (state (query_enter e a))"
    using inv enter [of "state a" "date_now e 0"] by (simp add: query_enter_def everywhere_def Let_def)
  have held: "case storage (query_enter e a) of None \<Rightarrow> True | Some h \<Rightarrow> P h"
    using inv by (simp add: query_enter_def everywhere_def Let_def)
  have kept: "everywhere P (fst (query_try e c (query_enter e a) m))"
    by (rule query_try_keeps [where Q = Q, OF q held weaken count hit append])
  obtain a' r where res: "query_try e c (query_enter e a) m = (a', r)"
    by (cases "query_try e c (query_enter e a) m")
  with kept show ?thesis
    by (cases r) (simp_all add: query_with_def)
qed

lemma new_agent_keeps:
  assumes "P (initialState e sid)" and "case held of None \<Rightarrow> True | Some h \<Rightarrow> P h"
  shows "everywhere P (new_agent e sid held)"
  using assms by (simp add: new_agent_def everywhere_def)

lemma initializeState_keeps:
  assumes "everywhere P a"
  shows "everywhere P (initializeState e a)"
  using assms by (simp add: initializeState_def everywhere_def split: option.splits)

lemma step_keeps:
  assumes inv: "everywhere P a"
    and init: "\<And>e sid. P (initialState e sid)"
    and enter: "\<And>st t. P st \<Longrightarrow>
       Q (st\<lparr>lastActivity := t,
              metadata := (metadata st)\<lparr>totalQueries := totalQueries (metadata st) + 1\<rparr>\<rparr>)"
    and weaken: "\<And>st. Q st \<Longrightarrow> P st"
    and count: "\<And>st src. Q st \<Longrightarrow> Q (incrementMCPCounter src st)"
    and hit: "\<And>st. Q st \<Longrightarrow>
                P (st\<lparr>metadata := (metadata st)\<lparr>cacheHits := cacheHits (metadata st) + 1\<rparr>\<rparr>)"
    and append: "\<And>st t1 t2 m response. Q st \<Longrightarrow>
                   P (addToHistory t2 Assistant response (addToHistory t1 User m st))"
    and clear: "\<And>st. P st \<Longrightarrow> P (st\<lparr>conversationHistory := []\<rparr>)"
    and connect: "\<And>st flags. P st \<Longrightarrow> P (st\<lparr>mcpConnections := flags\<rparr>)"
  shows "everywhere P (step a operation)"
proof (cases operation)
  case (HandleQuery e c m)
  then show ?thesis
    using query_with_keeps [where P = P and Q = Q, OF inv enter weaken count hit append]
    by simp
next
  case (ClearHistory e)
  then show ?thesis
    using inv clear by (simp add: clearHistory_def saveState_def everywhere_def)
next
  case (ConnectMCPs e)
  then show ?thesis
    using inv connect by (simp add: connectMCPs_def saveState_def everywhere_def Let_def)
next
  case GetHistory
  then show ?thesis using inv by (simp add: getHistory_def)
next
  case GetStats
  then show ?thesis using inv by (simp add: getStats_def)
next
  case (Restart e)
  have "everywhere P (new_agent e (agent_sessionId a) (storage a))"
    using inv by (intro new_agent_keeps init) (simp add: everywhere_def)
  then have "everywhere P (initializeState e (new_agent e (agent_sessionId a) (storage a)))"
    by (rule initializeState_keeps)
  with Restart show ?thesis by simp
qed

lemma run_keeps:
  assumes inv: "everywhere P a"
    and init: "\<And>e sid. P (initialState e sid)"
    and enter: "\<And>st t. P st \<Longrightarrow>
       Q (st\<lparr>lastActivity := t,
              metadata := (metadata st)\<lparr>totalQueries := totalQueries (metadata st) + 1\<rparr>\<rparr>)"
    and weaken: "\<And>st. Q st \<Longrightarrow> P st"
    and count: "\<And>st src. Q st \<Longrightarrow> Q (incrementMCPCounter src st)"
    and hit: "\<And>st. Q st \<Longrightarrow>
                P (st\<lparr>metadata := (metadata st)\<lparr>cacheHits := cacheHits (metadata st) + 1\<rparr>\<rparr>)"
    and append: "\<And>st t1 t2 m response. Q st \<Longrightarrow>
                   P (addToHistory t2 Assistant response (addToHistory t1 User m st))"
    and clear: "\<And>st. P st \<Longrightarrow> P (st\<lparr>conversationHistory := []\<rparr>)"
    and connect: "\<And>st flags. P st \<Longrightarrow> P (st\<lparr>mcpConnections := flags\<rparr>)"
  shows "everywhere P (run a operations)"
  using inv
proof (induction operations arbitrary: a)
  case Nil
  then show ?case by (simp add: run_def)
next
  case (Cons operation operations)
  have "everywhere P (step a operation)"
    by (rule step_keeps [where Q = Q, OF Cons.prems init enter weaken count hit append clear connect])
  from Cons.IH [OF this] show ?case by (simp add: run_def)
qed

subsection \<open>The two counters\<close>

lemma metadata_addToHistory: "metadata (addToHistory t r c st) = metadata st"
  by (simp add: addToHistory_def Let_def)

lemma counters_incrementMCPCounter:
  "totalQueries (metadata (incrementMCPCounter src st)) = totalQueries (metadata st)"
  "cacheHits (metadata (incrementMCPCounter src st)) = cacheHits (metadata st)"
  by (simp_all add: incrementMCPCounter_def Let_def)

lemmas session_eval =
  run_def short_session_def getHistory_def agent_eval memory_eval hermes_down_def
  toResult_def restart_answer_def classifyIntent_def classifyIntent_try_def
  generateResponse_def generateResponse_try_def store_def store_try_def addToHistory_def
  slice_last_def Let_def

text \<open>
  C8. On a new session, after any sequence of the five operations of the agent (queries
  over any behaviour of the collaborators, clearing the history, connecting, reading the
  history or the statistics), the cache-hit counter is at most the total-query counter.
  The sequence starts from the state written out in the constructor, over a storage that
  holds nothing; reconstructions of the object over a storage that holds a state are
  not part of it, since the constructor does not wait for its read of the storage.
\<close>

theorem cache_hits_bounded:
  assumes "list_all named operations"
  shows "cacheHits (metadata (state (run (new_agent e sid None) operations))) \<le>
         totalQueries (metadata (state (run (new_agent e sid None) operations)))"
proof -
  have start: "everywhere counters_ordered (new_agent e sid None)"
    by (rule new_agent_keeps) (simp_all add: counters_ordered_def initialState_def)
  have "everywhere counters_ordered (run (new_agent e sid None) operations)"
  proof (rule run_keeps [where Q = "\<lambda>st. cacheHits (metadata st) < totalQueries (metadata st)", OF start])
  qed (simp_all add: counters_ordered_def initialState_def metadata_addToHistory
        counters_incrementMCPCounter)
  then show ?thesis
    by (simp add: everywhere_def counters_ordered_def)
qed


text \<open>
  C8 on the short session: one hit in three queries.
\<close>

theorem cache_hits_bounded_witness:
  "list_all named short_session \<and>
   cacheHits (metadata (state (run (new_agent silent ''session-1'' None) short_session))) = 1 \<and>
   totalQueries (metadata (state (run (new_agent silent ''session-1'' None) short_session))) = 3 \<and>
   cacheHits (metadata (state (run (new_agent silent ''session-1'' None) short_session))) \<le>
   totalQueries (metadata (state (run (new_agent silent ''session-1'' None) short_session)))"
proof -
  have "metadata (state (run (new_agent silent ''session-1'' None) short_session)) =
      \<lparr>totalQueries = 3, cacheHits = 1,
       mcpCalls = \<lparr>n_observability = 0, n_documentation = 0, n_bindings = 0, stray = []\<rparr>\<rparr>"
    by (simp add: session_eval)
  moreover have five: "list_all named short_session"
    by (simp add: short_session_def)
  ultimately show ?thesis
    using cache_hits_bounded [OF five, of silent "''session-1''"] by simp
qed

subsection \<open>The shape of the history\<close>

lemma paired_even: "paired xs \<Longrightarrow> even (length xs)"
  by (induction xs rule: paired.induct) simp_all

lemma paired_append: "paired xs \<Longrightarrow> paired ys \<Longrightarrow> paired (xs @ ys)"
  by (induction xs rule: paired.induct) simp_all

lemma paired_drop: "paired xs \<Longrightarrow> even k \<Longrightarrow> paired (drop k xs)"
proof (induction xs arbitrary: k rule: paired.induct)
  case 1
  then show ?case by simp
next
  case (2 m)
  then show ?case by simp
next
  case (3 u v rest)
  show ?case
  proof (cases k)
    case 0
    with 3 show ?thesis by simp
  next
    case (Suc j)
    with \<open>even k\<close> obtain i where "j = Suc i" and "even i"
      by (cases j) auto
    with Suc 3 show ?thesis by simp
  qed
qed

lemma paired_slice_last: "paired xs \<Longrightarrow> paired (slice_last 20 xs)"
  unfolding slice_last_def by (rule paired_drop) (auto dest: paired_even)

lemma paired_nth:
  "paired xs \<Longrightarrow> i < length xs \<Longrightarrow> role (xs ! i) = (if even i then User else Assistant)"
proof (induction xs arbitrary: i rule: paired.induct)
  case 1
  then show ?case by simp
next
  case (2 m)
  then show ?case by simp
next
  case (3 u v rest)
  show ?case
  proof (cases i)
    case 0
    with 3 show ?thesis by simp
  next
    case (Suc j)
    show ?thesis
    proof (cases j)
      case 0
      with Suc 3 show ?thesis by simp
    next
      case (Suc k)
      with \<open>i = Suc j\<close> 3 show ?thesis by simp
    qed
  qed
qed

lemma history_incrementMCPCounter:
  "conversationHistory (incrementMCPCounter src st) = conversationHistory st"
  by (simp add: incrementMCPCounter_def Let_def)

lemma paired_exchange:
  assumes "paired (conversationHistory st)"
  shows "paired (conversationHistory
           (addToHistory t2 Assistant response (addToHistory t1 User m st)))"
proof -
  have "conversationHistory (addToHistory t2 Assistant response (addToHistory t1 User m st)) =
      slice_last 20 (conversationHistory st @
        [\<lparr>role = User, content = m, timestamp = t1\<rparr>,
         \<lparr>role = Assistant, content = response, timestamp = t2\<rparr>])"
    using slice_last_append [of 20
        "conversationHistory st @ [\<lparr>role = User, content = m, timestamp = t1\<rparr>]"
        "[\<lparr>role = Assistant, content = response, timestamp = t2\<rparr>]"]
    by (simp add: addToHistory_history)
  moreover have "paired (conversationHistory st @
        [\<lparr>role = User, content = m, timestamp = t1\<rparr>,
         \<lparr>role = Assistant, content = response, timestamp = t2\<rparr>])"
    using assms by (intro paired_append) simp_all
  ultimately show ?thesis by (simp add: paired_slice_last)
qed

text \<open>
  C9. After any sequence of operations on a new agent, the conversation history consists
  of pairs, a user message followed by an assistant message: its length is even, the
  messages at even indices (the first, the third, ...) are user messages and those at odd
  indices assistant messages.
\<close>

theorem history_paired:
  "paired (conversationHistory (state (run (new_agent e sid None) operations))) \<and>
   even (length (conversationHistory (state (run (new_agent e sid None) operations)))) \<and>
   (\<forall>i < length (conversationHistory (state (run (new_agent e sid None) operations))).
      role (conversationHistory (state (run (new_agent e sid None) operations)) ! i) =
        (if even i then User else Assistant))"
proof -
  have start: "everywhere (\<lambda>st. paired (conversationHistory st)) (new_agent e sid None)"
    by (rule new_agent_keeps) (simp_all add: initialState_def)
  have "everywhere (\<lambda>st. paired (conversationHistory st)) (run (new_agent e sid None) operations)"
  proof (rule run_keeps [where Q = "\<lambda>st. paired (conversationHistory st)", OF start])
  qed (simp_all add: initialState_def history_incrementMCPCounter paired_exchange)
  then have p: "paired (conversationHistory (state (run (new_agent e sid None) operations)))"
    by (simp add: everywhere_def)
  from p paired_even [OF p] paired_nth [OF p] show ?thesis by simp
qed

text \<open>
  C9 on the short session: two exchanges are in the history.
\<close>

theorem history_paired_witness:
  "length (conversationHistory (state (run (new_agent silent ''session-1'' None) short_session))) = 4 \<and>
   role (conversationHistory (state (run (new_agent silent ''session-1'' None) short_session)) ! 0) = User \<and>
   role (conversationHistory (state (run (new_agent silent ''session-1'' None) short_session)) ! 1) = Assistant \<and>
   role (conversationHistory (state (run (new_agent silent ''session-1'' None) short_session)) ! 2) = User \<and>
   role (conversationHistory (state (run (new_agent silent ''session-1'' None) short_session)) ! 3) = Assistant"
proof -
  have len: "length (conversationHistory (state (run (new_agent silent ''session-1'' None) short_session))) = 4"
    by (simp add: session_eval)
  from history_paired [of silent "''session-1''" short_session]
  have "\<forall>i < length (conversationHistory (state (run (new_agent silent ''session-1'' None) short_session))).
      role (conversationHistory (state (run (new_agent silent ''session-1'' None) short_session)) ! i) =
        (if even i then User else Assistant)"
    by simp
  with len show ?thesis by simp
qed

end
